theory Spec2Isabelle
  imports Complex_Main "HOL-Library.Product_Lexorder" "HOL-Library.Multiset" "HOL-Library.Log_Nat"
begin

section \<open>Scope of the embedding\<close>

text \<open>
  The admin controller (\<^verbatim>\<open>src/unnamed/part_001\<close>) and the driver controller
  (\<^verbatim>\<open>src/unnamed/part_002\<close>) are Express handlers over a MySQL pool. Each handler is
  embedded as a function from the database and the request to the response, and, for a
  handler that writes, to the database afterwards.

  \<^item> \<^verbatim>\<open>src/unnamed/part_000\<close> and lines 655-1063 of \<^verbatim>\<open>part_002\<close> hold other copies of
    the two controllers, without the \<^verbatim>\<open>YYYY-MM\<close> period token and without tickets for
    several customers. The handlers embedded are those of \<^verbatim>\<open>part_001\<close> and of lines 1-654
    of \<^verbatim>\<open>part_002\<close>.
  \<^item> A table is the list of its rows. \<^verbatim>\<open>SELECT ... WHERE\<close> is \<open>filter\<close>, and an
    \<^verbatim>\<open>UPDATE ... WHERE\<close> rewrites the rows that satisfy the condition.
  \<^item> A response is \<open>error + payload\<close>: \<open>ValidationError\<close> is a 400 response,
    \<open>NotFoundError\<close> a 404 and \<open>StorageError\<close> the 500 of the handler's
    \<^verbatim>\<open>catch\<close> block; each carries the message of the source.
  \<^item> A JavaScript number is a \<open>number\<close>: an IEEE 754 double (a rational that binary64
    represents), an infinity or \<^verbatim>\<open>NaN\<close>. Arithmetic rounds to the nearest double, ties to
    even. The two zeros are one value: no handler divides by a zero or prints its sign.
  \<^item> What the MySQL server decides is the \<open>engine\<close> of the database: the equality and
    the \<^verbatim>\<open>LIKE\<close> of the collation \<^verbatim>\<open>utf8mb4_unicode_ci\<close>, the value a
    \<^verbatim>\<open>DECIMAL(10, 2)\<close> column stores for a bound number or string, and the member of the
    \<^verbatim>\<open>ENUM\<close> column that a bound string denotes. Each conversion is \<open>None\<close> when the
    server refuses the value; the statement then fails as a whole (strict SQL mode) and the
    handler answers 500. The theorems hold for every engine; the examples use one engine
    that compares ASCII text without regard to case and rounds half away from zero.
  \<^item> A \<^verbatim>\<open>DECIMAL\<close> column holds a rational and reaches JavaScript as its decimal text
    (mysql2 without \<^verbatim>\<open>decimalNumbers\<close>); \<^verbatim>\<open>parseFloat\<close> and the arithmetic operators
    turn that text into the nearest double.
  \<^item> The length limits of the \<^verbatim>\<open>VARCHAR\<close> columns are not modelled.
  \<^item> \<^verbatim>\<open>NOW()\<close> is the argument \<open>now\<close> of every handler that writes.
  \<^item> An optional request field is an \<open>option\<close>: \<open>None\<close> is \<^verbatim>\<open>undefined\<close>.
\<close>

section \<open>JavaScript numbers\<close>

datatype number = Num rat | Infinity | NegInfinity | NaN

text \<open>For \<open>0 < a\<close>: the integer \<open>e\<close> with \<open>2 ^ e \<le> a < 2 ^ (e + 1)\<close>.\<close>

definition expo2 :: "rat \<Rightarrow> int" where
  "expo2 a =
     (let (n, d) = quotient_of a;
          k = bitlen n - bitlen d
      in if 2 powi k \<le> a then k else k - 1)"

text \<open>The nearest integer, a tie going to the even one.\<close>

definition round_even :: "rat \<Rightarrow> int" where
  "round_even q =
     (let f = \<lfloor>q\<rfloor>; r = q - of_int f
      in if r < 1 / 2 then f else if 1 / 2 < r then f + 1 else if even f then f else f + 1)"

text \<open>
  The double nearest to a rational: 53 significant bits, the exponent not below
  \<open>- 1022\<close> (subnormal numbers), and an infinity when the rounded value reaches
  \<open>2 ^ 1024\<close>.
\<close>

definition to_double :: "rat \<Rightarrow> number" where
  "to_double x =
     (if x = 0 then Num 0
      else
        (let a = \<bar>x\<bar>;
             e = max (expo2 a) (- 1022)
         in if 1023 < e then (if 0 < x then Infinity else NegInfinity)
            else
              (let ulp = 2 powi (e - 52);
                   m = round_even (a / ulp)
               in if e = 1023 \<and> m = 9007199254740992
                  then (if 0 < x then Infinity else NegInfinity)
                  else Num (if 0 < x then of_int m * ulp else - (of_int m * ulp)))))"

text \<open>The operators \<^verbatim>\<open>+\<close>, \<^verbatim>\<open>*\<close> and \<^verbatim>\<open>/\<close> on numbers.\<close>

fun fadd :: "number \<Rightarrow> number \<Rightarrow> number" where
  "fadd (Num x) (Num y) = to_double (x + y)"
| "fadd NaN _ = NaN"
| "fadd _ NaN = NaN"
| "fadd Infinity NegInfinity = NaN"
| "fadd NegInfinity Infinity = NaN"
| "fadd Infinity _ = Infinity"
| "fadd _ Infinity = Infinity"
| "fadd NegInfinity _ = NegInfinity"
| "fadd _ NegInfinity = NegInfinity"

fun fmul :: "number \<Rightarrow> number \<Rightarrow> number" where
  "fmul (Num x) (Num y) = to_double (x * y)"
| "fmul NaN _ = NaN"
| "fmul _ NaN = NaN"
| "fmul (Num x) Infinity = (if x = 0 then NaN else if 0 < x then Infinity else NegInfinity)"
| "fmul (Num x) NegInfinity = (if x = 0 then NaN else if 0 < x then NegInfinity else Infinity)"
| "fmul Infinity (Num y) = (if y = 0 then NaN else if 0 < y then Infinity else NegInfinity)"
| "fmul NegInfinity (Num y) = (if y = 0 then NaN else if 0 < y then NegInfinity else Infinity)"
| "fmul Infinity Infinity = Infinity"
| "fmul Infinity NegInfinity = NegInfinity"
| "fmul NegInfinity Infinity = NegInfinity"
| "fmul NegInfinity NegInfinity = Infinity"

fun fdiv :: "number \<Rightarrow> number \<Rightarrow> number" where
  "fdiv (Num x) (Num y) =
     (if y = 0 then (if x = 0 then NaN else if 0 < x then Infinity else NegInfinity)
      else to_double (x / y))"
| "fdiv NaN _ = NaN"
| "fdiv _ NaN = NaN"
| "fdiv (Num x) Infinity = Num 0"
| "fdiv (Num x) NegInfinity = Num 0"
| "fdiv Infinity (Num y) = (if 0 \<le> y then Infinity else NegInfinity)"
| "fdiv NegInfinity (Num y) = (if 0 \<le> y then NegInfinity else Infinity)"
| "fdiv _ _ = NaN"

section \<open>Data model\<close>

text \<open>A calendar day (the \<^verbatim>\<open>DATE\<close> column): year, month, day, ordered lexicographically.\<close>

type_synonym date = "nat \<times> nat \<times> nat"

text \<open>The column \<^verbatim>\<open>status ENUM('Pending', 'Approved', 'Rejected') NOT NULL\<close>.\<close>

datatype status = Pending | Approved | Rejected

fun status_name :: "status \<Rightarrow> string" where
  "status_name Pending = ''Pending''"
| "status_name Approved = ''Approved''"
| "status_name Rejected = ''Rejected''"

definition status_of_name :: "string \<Rightarrow> status option" where
  "status_of_name s =
     (if s = ''Pending'' then Some Pending
      else if s = ''Approved'' then Some Approved
      else if s = ''Rejected'' then Some Rejected
      else None)"

record customer =
  c_id :: nat
  c_name :: string
  c_default_bill_rate :: rat
  c_updated_at :: nat

record driver =
  d_id :: nat
  d_user_id :: nat
  d_user_id_code :: string
  d_name :: string
  d_default_pay_rate :: "rat option"

record ticket =
  t_id :: nat
  t_driver_id :: nat
  t_date :: date
  t_truck_number :: string
  t_customer :: string
  t_equipment_type :: string
  t_ticket_number :: string
  t_quantity :: rat
  t_photo_path :: "string option"
  t_bill_rate :: rat
  t_pay_rate :: rat
  t_total_bill :: rat
  t_total_pay :: rat
  t_status :: status
  t_created_at :: nat
  t_updated_at :: nat

text \<open>
  The decisions of the server: \<open>str_eq a b\<close> is \<^verbatim>\<open>a = b\<close> and \<open>str_like a pat\<close> is
  \<^verbatim>\<open>a LIKE pat\<close> on text of the collation; \<open>decimal_of_number\<close> and
  \<open>decimal_of_string\<close> give the value a \<^verbatim>\<open>DECIMAL(10, 2)\<close> column stores for a bound
  double and for a bound string; \<open>enum_of_string\<close> gives the member of the status column
  that a bound string denotes.
\<close>

record engine =
  str_eq :: "string \<Rightarrow> string \<Rightarrow> bool"
  str_like :: "string \<Rightarrow> string \<Rightarrow> bool"
  decimal_of_number :: "number \<Rightarrow> rat option"
  decimal_of_string :: "string \<Rightarrow> rat option"
  enum_of_string :: "string \<Rightarrow> status option"

record db =
  customers :: "customer list"
  drivers :: "driver list"
  tickets :: "ticket list"
  eng :: engine

datatype error =
    ValidationError string
  | NotFoundError string
  | StorageError string

text \<open>A string bound to the status column: the three names are always read as themselves.\<close>

definition status_column :: "engine \<Rightarrow> string \<Rightarrow> status option" where
  "status_column e s =
     (case status_of_name s of Some v \<Rightarrow> Some v | None \<Rightarrow> enum_of_string e s)"

text \<open>
  \<^verbatim>\<open>UPDATE table SET ... WHERE cond\<close> with values that need no conversion: every row that
  satisfies \<open>cond\<close> is rewritten.
\<close>

definition update_where :: "('a \<Rightarrow> bool) \<Rightarrow> ('a \<Rightarrow> 'a) \<Rightarrow> 'a list \<Rightarrow> 'a list" where
  "update_where cond f rows = map (\<lambda>r. if cond r then f r else r) rows"

text \<open>
  \<^verbatim>\<open>UPDATE table SET ... WHERE cond\<close> with values that the columns convert: \<open>None\<close> when
  the conversion fails on a row to rewrite, and then no row is written.
\<close>

fun update_rows :: "('a \<Rightarrow> bool) \<Rightarrow> ('a \<Rightarrow> 'a option) \<Rightarrow> 'a list \<Rightarrow> 'a list option" where
  "update_rows cond f [] = Some []"
| "update_rows cond f (r # rows) =
     (case (if cond r then f r else Some r) of
        None \<Rightarrow> None
      | Some r' \<Rightarrow>
          (case update_rows cond f rows of None \<Rightarrow> None | Some rows' \<Rightarrow> Some (r' # rows')))"

section \<open>Ticket update (\<^verbatim>\<open>updateTicket\<close>, part_001 lines 536-614)\<close>

text \<open>
  The request body \<^verbatim>\<open>{ bill_rate, pay_rate, status, quantity }\<close>. A numeric field is the
  value of its JSON literal, which \<^verbatim>\<open>JSON.parse\<close> turns into a double. The numeric fields
  are tested with \<^verbatim>\<open>!== undefined\<close>, the status with \<^verbatim>\<open>if (status)\<close>: a status that is
  the empty string is falsy and counts as absent.
\<close>

record ticket_patch =
  p_bill_rate :: "rat option"
  p_pay_rate :: "rat option"
  p_status :: "string option"
  p_quantity :: "rat option"

text \<open>One entry of the arrays \<^verbatim>\<open>updates\<close> and \<^verbatim>\<open>values\<close>: a column and the value bound to it.\<close>

datatype assignment =
    SetBillRate number
  | SetPayRate number
  | SetStatus string
  | SetQuantity number
  | SetTotalBill number
  | SetTotalPay number

text \<open>The row after one assignment, \<open>None\<close> when the column refuses the bound value.\<close>

fun assign :: "engine \<Rightarrow> assignment \<Rightarrow> ticket \<Rightarrow> ticket option" where
  "assign e (SetBillRate v) t = map_option (\<lambda>d. t\<lparr>t_bill_rate := d\<rparr>) (decimal_of_number e v)"
| "assign e (SetPayRate v) t = map_option (\<lambda>d. t\<lparr>t_pay_rate := d\<rparr>) (decimal_of_number e v)"
| "assign e (SetStatus s) t = map_option (\<lambda>v. t\<lparr>t_status := v\<rparr>) (status_column e s)"
| "assign e (SetQuantity v) t = map_option (\<lambda>d. t\<lparr>t_quantity := d\<rparr>) (decimal_of_number e v)"
| "assign e (SetTotalBill v) t = map_option (\<lambda>d. t\<lparr>t_total_bill := d\<rparr>) (decimal_of_number e v)"
| "assign e (SetTotalPay v) t = map_option (\<lambda>d. t\<lparr>t_total_pay := d\<rparr>) (decimal_of_number e v)"

fun assign_all :: "engine \<Rightarrow> assignment list \<Rightarrow> ticket \<Rightarrow> ticket option" where
  "assign_all e [] t = Some t"
| "assign_all e (a # as) t =
     (case assign e a t of None \<Rightarrow> None | Some t' \<Rightarrow> assign_all e as t')"


text \<open>Lines 541-562: the assignments the patch asks for, in the order the source pushes them.\<close>

definition patch_updates :: "ticket_patch \<Rightarrow> assignment list" where
  "patch_updates p =
     (case p_bill_rate p of None \<Rightarrow> [] | Some v \<Rightarrow> [SetBillRate (to_double v)]) @
     (case p_pay_rate p of None \<Rightarrow> [] | Some v \<Rightarrow> [SetPayRate (to_double v)]) @
     (case p_status p of None \<Rightarrow> [] | Some s \<Rightarrow> if s = [] then [] else [SetStatus s]) @
     (case p_quantity p of None \<Rightarrow> [] | Some v \<Rightarrow> [SetQuantity (to_double v)])"

text \<open>
  Lines 585-587: a field that the patch leaves out keeps the value of the stored row, which
  the multiplication reads as a number.
\<close>

definition finalQty :: "ticket_patch \<Rightarrow> ticket \<Rightarrow> number" where
  "finalQty p currentTicket =
     (case p_quantity p of
        Some quantity \<Rightarrow> to_double quantity
      | None \<Rightarrow> to_double (t_quantity currentTicket))"

definition finalBillRate :: "ticket_patch \<Rightarrow> ticket \<Rightarrow> number" where
  "finalBillRate p currentTicket =
     (case p_bill_rate p of
        Some bill_rate \<Rightarrow> to_double bill_rate
      | None \<Rightarrow> to_double (t_bill_rate currentTicket))"

definition finalPayRate :: "ticket_patch \<Rightarrow> ticket \<Rightarrow> number" where
  "finalPayRate p currentTicket =
     (case p_pay_rate p of
        Some pay_rate \<Rightarrow> to_double pay_rate
      | None \<Rightarrow> to_double (t_pay_rate currentTicket))"

text \<open>Lines 589-594: the assignments of the patch, then the two totals.\<close>

definition ticket_updates :: "ticket_patch \<Rightarrow> ticket \<Rightarrow> assignment list" where
  "ticket_updates p currentTicket =
     patch_updates p @
     [SetTotalBill (fmul (finalQty p currentTicket) (finalBillRate p currentTicket)),
      SetTotalPay (fmul (finalQty p currentTicket) (finalPayRate p currentTicket))]"

text \<open>
  The empty patch is refused before the table is read; the row read is the first one of
  \<^verbatim>\<open>SELECT quantity, bill_rate, pay_rate FROM tickets WHERE id = ?\<close>, and the
  \<^verbatim>\<open>UPDATE\<close> writes the assignments, both totals and \<^verbatim>\<open>updated_at\<close>. When a column
  refuses a value the statement throws and the \<^verbatim>\<open>catch\<close> block answers.
\<close>

definition updateTicket :: "nat \<Rightarrow> db \<Rightarrow> nat \<Rightarrow> ticket_patch \<Rightarrow> (error + string) \<times> db" where
  "updateTicket now db tid p =
     (let updates = patch_updates p in
      if length updates = 0 then (Inl (ValidationError ''No fields to update''), db)
      else
        (case filter (\<lambda>t. t_id t = tid) (tickets db) of
           [] \<Rightarrow> (Inl (NotFoundError ''Ticket not found''), db)
         | currentTicket # _ \<Rightarrow>
             (case update_rows (\<lambda>t. t_id t = tid)
                     (\<lambda>t. map_option (\<lambda>t'. t'\<lparr>t_updated_at := now\<rparr>)
                            (assign_all (eng db) (ticket_updates p currentTicket) t))
                     (tickets db) of
                None \<Rightarrow> (Inl (StorageError ''Failed to update ticket''), db)
              | Some rows \<Rightarrow> (Inr ''Ticket updated successfully'', db\<lparr>tickets := rows\<rparr>))))"

section \<open>Status update (\<^verbatim>\<open>updateTicketStatus\<close>, part_001 lines 619-648)\<close>

definition valid_statuses :: "string list" where
  "valid_statuses = [''Pending'', ''Approved'', ''Rejected'']"

definition updateTicketStatus :: "nat \<Rightarrow> db \<Rightarrow> nat \<Rightarrow> string option \<Rightarrow> (error + string) \<times> db" where
  "updateTicketStatus now db tid status =
     (case status of
        None \<Rightarrow>
          (Inl (ValidationError ''Valid status is required (Pending, Approved, or Rejected)''), db)
      | Some s \<Rightarrow>
          if s = [] \<or> s \<notin> set valid_statuses
          then (Inl (ValidationError ''Valid status is required (Pending, Approved, or Rejected)''), db)
          else
            (case update_rows (\<lambda>t. t_id t = tid)
                    (\<lambda>t. map_option (\<lambda>v. t\<lparr>t_status := v, t_updated_at := now\<rparr>)
                           (status_column (eng db) s))
                    (tickets db) of
               None \<Rightarrow> (Inl (StorageError ''Failed to update ticket status''), db)
             | Some rows \<Rightarrow>
                 (Inr ''Ticket status updated successfully'', db\<lparr>tickets := rows\<rparr>)))"

section \<open>Strings and dates of the requests\<close>

text \<open>
  \<^verbatim>\<open>String.prototype.trim\<close> and \<^verbatim>\<open>String.prototype.split\<close> with a one-character
  separator. A \<open>char\<close> is a byte, so the white space is the ASCII white space.
\<close>

definition is_space :: "char \<Rightarrow> bool" where
  "is_space c = (c \<in> set [CHR '' '', CHR 0x09, CHR 0x0A, CHR 0x0B, CHR 0x0C, CHR 0x0D])"

definition trim :: "string \<Rightarrow> string" where
  "trim s = rev (dropWhile is_space (rev (dropWhile is_space s)))"

fun split :: "char \<Rightarrow> string \<Rightarrow> string list" where
  "split sep [] = [[]]"
| "split sep (c # cs) =
     (if c = sep then [] # split sep cs
      else (case split sep cs of [] \<Rightarrow> [[c]] | w # ws \<Rightarrow> (c # w) # ws))"

definition is_digit :: "char \<Rightarrow> bool" where
  "is_digit c = (48 \<le> (of_char c :: nat) \<and> (of_char c :: nat) \<le> 57)"

definition digits_val :: "string \<Rightarrow> nat" where
  "digits_val ds = foldl (\<lambda>n c. 10 * n + ((of_char c :: nat) - 48)) 0 ds"

text \<open>The pattern \<^verbatim>\<open>/^\d{4}-\d{2}-\d{2}$/\<close> of \<^verbatim>\<open>generateSettlement\<close> and \<^verbatim>\<open>downloadInvoice\<close>.\<close>

definition dateRegex :: "string \<Rightarrow> bool" where
  "dateRegex s =
     (length s = 10 \<and> list_all is_digit (take 4 s) \<and> s ! 4 = CHR ''-'' \<and>
      list_all is_digit (take 2 (drop 5 s)) \<and> s ! 7 = CHR ''-'' \<and>
      list_all is_digit (drop 8 s))"

text \<open>
  A string bound to a placeholder that is compared with, or stored in, the \<^verbatim>\<open>DATE\<close>
  column. The model reads the literal \<^verbatim>\<open>YYYY-MM-DD\<close>; any other text is \<open>None\<close>, and a
  statement that binds it fails (MySQL: \<^verbatim>\<open>Incorrect DATE value\<close>). Other spellings
  that a MySQL server may accept are not modelled.
\<close>

definition sql_date :: "string \<Rightarrow> date option" where
  "sql_date s =
     (if dateRegex s
      then Some (digits_val (take 4 s), digits_val (take 2 (drop 5 s)), digits_val (drop 8 s))
      else None)"

text \<open>
  The numeric text at the start of a string: an optional sign, digits with an optional
  fraction, an optional exponent. The result is its exact value and the text that follows,
  \<open>None\<close> when there is no digit.
\<close>

definition exponent_part :: "string \<Rightarrow> int \<times> string" where
  "exponent_part s =
     (case s of
        [] \<Rightarrow> (0, s)
      | c # r \<Rightarrow>
          if c = CHR ''e'' \<or> c = CHR ''E'' then
            (let neg = (case r of [] \<Rightarrow> False | d # _ \<Rightarrow> d = CHR ''-'');
                 r1 = (case r of [] \<Rightarrow> []
                       | d # r' \<Rightarrow> if d = CHR ''-'' \<or> d = CHR ''+'' then r' else r);
                 ds = takeWhile is_digit r1
             in if ds = [] then (0, s)
                else (if neg then - int (digits_val ds) else int (digits_val ds),
                      dropWhile is_digit r1))
          else (0, s))"

definition str_decimal :: "string \<Rightarrow> (rat \<times> string) option" where
  "str_decimal s =
     (let neg = (case s of [] \<Rightarrow> False | c # _ \<Rightarrow> c = CHR ''-'');
          s1 = (case s of [] \<Rightarrow> [] | c # r \<Rightarrow> if c = CHR ''-'' \<or> c = CHR ''+'' then r else s);
          ip = takeWhile is_digit s1;
          s2 = dropWhile is_digit s1;
          dot = (case s2 of [] \<Rightarrow> False | c # _ \<Rightarrow> c = CHR ''.'');
          fp = (if dot then takeWhile is_digit (tl s2) else []);
          s3 = (if dot then dropWhile is_digit (tl s2) else s2)
      in if ip = [] \<and> fp = [] then None
         else
           (let mantissa = of_nat (digits_val ip) + of_nat (digits_val fp) / 10 ^ length fp;
                (ex, s4) = exponent_part s3;
                v = mantissa * 10 powi ex
            in Some (if neg then - v else v, s4)))"

text \<open>\<^verbatim>\<open>parseFloat\<close> on a string: white space first, then \<^verbatim>\<open>Infinity\<close> or numeric text.\<close>

definition parseFloat :: "string \<Rightarrow> number" where
  "parseFloat s =
     (let t = dropWhile is_space s;
          neg = (case t of [] \<Rightarrow> False | c # _ \<Rightarrow> c = CHR ''-'');
          u = (case t of [] \<Rightarrow> [] | c # r \<Rightarrow> if c = CHR ''-'' \<or> c = CHR ''+'' then r else t)
      in if take 8 u = ''Infinity'' then (if neg then NegInfinity else Infinity)
         else (case str_decimal t of None \<Rightarrow> NaN | Some (v, _) \<Rightarrow> to_double v))"

section \<open>Invoice generation (\<^verbatim>\<open>generateInvoice\<close>, part_001 lines 726-788)\<close>

record invoice_query =
  q_customerId :: "nat option"
  q_startDate :: "string option"
  q_endDate :: "string option"

text \<open>
  A row of \<^verbatim>\<open>SELECT t.*, d.name as driver_name, d.user_id_code FROM tickets t LEFT JOIN
  drivers d ON t.driver_id = d.id\<close>. \<^verbatim>\<open>drivers.id\<close> is the primary key, so at most one
  driver joins a ticket.
\<close>

record invoice_line =
  il_ticket :: ticket
  il_driver_name :: "string option"
  il_user_id_code :: "string option"

record invoice =
  inv_customer :: string
  inv_startDate :: string
  inv_endDate :: string
  inv_tickets :: "invoice_line list"
  inv_subtotal :: number
  inv_gst :: number
  inv_total :: number

definition join_driver :: "db \<Rightarrow> ticket \<Rightarrow> invoice_line" where
  "join_driver db t =
     (let d = find (\<lambda>d. d_id d = t_driver_id t) (drivers db)
      in \<lparr>il_ticket = t, il_driver_name = map_option d_name d,
          il_user_id_code = map_option d_user_id_code d\<rparr>)"

text \<open>
  The sum is \<^verbatim>\<open>tickets.reduce((sum, ticket) => sum + parseFloat(ticket.total_bill), 0)\<close>,
  from the left in the order of the rows, and \<^verbatim>\<open>0.05\<close> is the double nearest to 5/100.
\<close>

definition generateInvoice :: "db \<Rightarrow> invoice_query \<Rightarrow> error + invoice" where
  "generateInvoice db q =
     (case (q_customerId q, q_startDate q, q_endDate q) of
        (Some customerId, Some startDate, Some endDate) \<Rightarrow>
          if startDate = [] \<or> endDate = []
          then Inl (ValidationError ''Customer ID, start date, and end date are required'')
          else
            (case filter (\<lambda>c. c_id c = customerId) (customers db) of
               [] \<Rightarrow> Inl (NotFoundError ''Customer not found'')
             | c # _ \<Rightarrow>
                 (let customerName = c_name c
                  in case (sql_date startDate, sql_date endDate) of
                       (Some d1, Some d2) \<Rightarrow>
                         (let tickets =
                                sort_key (\<lambda>l. t_date (il_ticket l))
                                  (map (join_driver db)
                                    (filter (\<lambda>t. str_eq (eng db) (t_customer t) customerName \<and>
                                                 t_status t = Approved \<and>
                                                 d1 \<le> t_date t \<and> t_date t \<le> d2)
                                       (tickets db)));
                              subtotal =
                                foldl (\<lambda>sum l. fadd sum (to_double (t_total_bill (il_ticket l))))
                                  (Num 0) tickets;
                              gst = fmul subtotal (to_double (5 / 100));
                              total = fadd subtotal gst
                          in Inr \<lparr>inv_customer = customerName, inv_startDate = startDate,
                                  inv_endDate = endDate, inv_tickets = tickets,
                                  inv_subtotal = subtotal, inv_gst = gst, inv_total = total\<rparr>)
                     | _ \<Rightarrow> Inl (StorageError ''Failed to generate invoice'')))
      | _ \<Rightarrow> Inl (ValidationError ''Customer ID, start date, and end date are required''))"

section \<open>Settlement generation (\<^verbatim>\<open>generateSettlement\<close>, part_001 lines 1051-1148)\<close>

record settlement_query =
  s_driverId :: "nat option"
  s_startDate :: "string option"
  s_endDate :: "string option"

text \<open>
  A row of \<^verbatim>\<open>SELECT t.*, c.name as customer_name FROM tickets t LEFT JOIN customers c ON
  t.customer = c.name\<close>. The unique index on \<^verbatim>\<open>customers.name\<close> compares names as the
  collation does, so at most one customer joins a ticket.
\<close>

record settlement_line =
  sl_ticket :: ticket
  sl_customer_name :: "string option"

record settlement =
  stl_driver_id :: nat
  stl_driver_name :: string
  stl_driver_code :: string
  stl_startDate :: string
  stl_endDate :: string
  stl_tickets :: "settlement_line list"
  stl_totalPay :: number

definition join_customer :: "db \<Rightarrow> ticket \<Rightarrow> settlement_line" where
  "join_customer db t =
     \<lparr>sl_ticket = t,
      sl_customer_name =
        map_option c_name (find (\<lambda>c. str_eq (eng db) (t_customer t) (c_name c)) (customers db))\<rparr>"

definition generateSettlement :: "db \<Rightarrow> settlement_query \<Rightarrow> error + settlement" where
  "generateSettlement db q =
     (case s_driverId q of
        None \<Rightarrow> Inl (ValidationError ''Driver ID is required'')
      | Some driverId \<Rightarrow>
          (case s_startDate q of
             None \<Rightarrow> Inl (ValidationError ''Start date is required (format: YYYY-MM-DD)'')
           | Some startDate \<Rightarrow>
               if startDate = []
               then Inl (ValidationError ''Start date is required (format: YYYY-MM-DD)'')
               else
                 (case s_endDate q of
                    None \<Rightarrow> Inl (ValidationError ''End date is required (format: YYYY-MM-DD)'')
                  | Some endDate \<Rightarrow>
                      if endDate = []
                      then Inl (ValidationError ''End date is required (format: YYYY-MM-DD)'')
                      else if \<not> dateRegex startDate
                      then Inl (ValidationError ''Start date must be in YYYY-MM-DD format'')
                      else if \<not> dateRegex endDate
                      then Inl (ValidationError ''End date must be in YYYY-MM-DD format'')
                      else
                        (case filter (\<lambda>d. d_id d = driverId) (drivers db) of
                           [] \<Rightarrow> Inl (NotFoundError ''Driver not found'')
                         | driver # _ \<Rightarrow>
                             (case (sql_date startDate, sql_date endDate) of
                                (Some d1, Some d2) \<Rightarrow>
                                  (let tickets =
                                         sort_key (\<lambda>l. t_date (sl_ticket l))
                                           (map (join_customer db)
                                             (filter (\<lambda>t. t_driver_id t = driverId \<and>
                                                          d1 \<le> t_date t \<and> t_date t \<le> d2)
                                                (tickets db)));
                                       totalPay =
                                         foldl (\<lambda>sum l. fadd sum (to_double (t_total_pay (sl_ticket l))))
                                           (Num 0) tickets
                                   in Inr \<lparr>stl_driver_id = d_id driver,
                                           stl_driver_name = d_name driver,
                                           stl_driver_code = d_user_id_code driver,
                                           stl_startDate = startDate, stl_endDate = endDate,
                                           stl_tickets = tickets, stl_totalPay = totalPay\<rparr>)
                              | _ \<Rightarrow> Inl (StorageError ''Failed to generate settlement''))))))"

section \<open>Ticket query (\<^verbatim>\<open>getAllTickets\<close>, part_001 lines 402-494)\<close>

text \<open>
  \<^verbatim>\<open>parseInt(s, 10)\<close>: leading white space, an optional sign, then the longest run of
  decimal digits; \<open>None\<close> is \<^verbatim>\<open>NaN\<close>.
\<close>

definition parseInt :: "string \<Rightarrow> int option" where
  "parseInt s =
     (let s1 = dropWhile is_space s;
          neg = (case s1 of [] \<Rightarrow> False | c # _ \<Rightarrow> c = CHR ''-'');
          s2 = (case s1 of [] \<Rightarrow> [] | c # r \<Rightarrow> if c = CHR ''-'' \<or> c = CHR ''+'' then r else s1);
          ds = takeWhile is_digit s2
      in if ds = [] then None
         else Some (if neg then - int (digits_val ds) else int (digits_val ds)))"

text \<open>The decimal text of a number in a template literal.\<close>

fun show_nat :: "nat \<Rightarrow> string" where
  "show_nat n =
     (if n < 10 then [char_of (48 + n)]
      else show_nat (n div 10) @ [char_of (48 + n mod 10)])"

declare show_nat.simps [simp del]

definition show_int :: "int \<Rightarrow> string" where
  "show_int i = (if i < 0 then CHR ''-'' # show_nat (nat (- i)) else show_nat (nat i))"

text \<open>
  Lines 415-437. The variables \<^verbatim>\<open>monthNum\<close> and \<^verbatim>\<open>year\<close> are \<open>None\<close> while
  \<^verbatim>\<open>undefined\<close> or \<^verbatim>\<open>NaN\<close>. The date parser of the JavaScript engine is the argument
  \<open>newDate\<close>: \<open>newDate s\<close> is \<^verbatim>\<open>new Date(s).getMonth()\<close>, and \<open>None\<close> when the date
  is invalid.
\<close>

definition parse_month :: "(string \<Rightarrow> nat option) \<Rightarrow> string \<Rightarrow> int option \<times> int option" where
  "parse_month newDate month =
     (if CHR ''-'' \<in> set month then
        (let parts = split CHR ''-'' month in
         if length parts = 2 \<and> parts ! 0 \<noteq> [] \<and> parts ! 1 \<noteq> []
         then (parseInt (parts ! 1), parseInt (parts ! 0))
         else (None, None))
      else
        (let parts = split CHR '' '' month in
         if length parts \<ge> 2 \<and> parts ! 0 \<noteq> [] \<and> last parts \<noteq> []
         then
           (let monthName = parts ! 0;
                year = parseInt (last parts);
                dateObj = newDate (monthName @ '' 1, '' @
                            (case year of None \<Rightarrow> ''NaN'' | Some y \<Rightarrow> show_int y))
            in (map_option (\<lambda>m. int m + 1) dateObj, year))
         else (None, None)))"

text \<open>Line 440: the pair is used only when both numbers are truthy and the month is 1 to 12.\<close>

definition period_of :: "(string \<Rightarrow> nat option) \<Rightarrow> string \<Rightarrow> (int \<times> int) option" where
  "period_of newDate month =
     (case parse_month newDate month of
        (Some monthNum, Some year) \<Rightarrow>
          if monthNum \<noteq> 0 \<and> year \<noteq> 0 \<and> monthNum \<ge> 1 \<and> monthNum \<le> 12
          then Some (monthNum, year) else None
      | _ \<Rightarrow> None)"

record ticket_query =
  f_month :: "string option"
  f_customer :: "string option"
  f_driver :: "string option"
  f_status :: "string option"
  f_search :: "string option"

text \<open>A condition appended to the \<^verbatim>\<open>WHERE\<close> clause, and a value pushed on \<^verbatim>\<open>params\<close>.\<close>

datatype condition =
    MonthYear int int
  | CustomerIs string
  | DriverNameIs string
  | StatusIs string
  | TicketNumberLike string

datatype param = PNum int | PStr string

text \<open>
  A row of \<^verbatim>\<open>SELECT t.*, d.name as driver_name, d.user_id_code, c.name as customer_name
  FROM tickets t LEFT JOIN drivers d ON t.driver_id = d.id LEFT JOIN customers c ON
  t.customer = c.name\<close>.
\<close>

record ticket_row =
  r_ticket :: ticket
  r_driver_name :: "string option"
  r_user_id_code :: "string option"
  r_customer_name :: "string option"

definition join_ticket :: "db \<Rightarrow> ticket \<Rightarrow> ticket_row" where
  "join_ticket db t =
     (let d = find (\<lambda>d. d_id d = t_driver_id t) (drivers db);
          c = find (\<lambda>c. str_eq (eng db) (t_customer t) (c_name c)) (customers db)
      in \<lparr>r_ticket = t, r_driver_name = map_option d_name d,
          r_user_id_code = map_option d_user_id_code d,
          r_customer_name = map_option c_name c\<rparr>)"

text \<open>The conditions, as the server evaluates them on a row; a comparison with \<^verbatim>\<open>NULL\<close> fails.\<close>

fun holds :: "engine \<Rightarrow> condition \<Rightarrow> ticket_row \<Rightarrow> bool" where
  "holds e (MonthYear m y) r =
     (int (fst (snd (t_date (r_ticket r)))) = m \<and> int (fst (t_date (r_ticket r))) = y)"
| "holds e (CustomerIs c) r = str_eq e (t_customer (r_ticket r)) c"
| "holds e (DriverNameIs n) r =
     (case r_driver_name r of None \<Rightarrow> False | Some name \<Rightarrow> str_eq e name n)"
| "holds e (StatusIs s) r = str_eq e (status_name (t_status (r_ticket r))) s"
| "holds e (TicketNumberLike pat) r = str_like e (t_ticket_number (r_ticket r)) pat"

text \<open>Lines 415-464: each branch appends one condition and pushes its values.\<close>

definition month_clause ::
  "(string \<Rightarrow> nat option) \<Rightarrow> string option \<Rightarrow> (condition \<times> param option list) list" where
  "month_clause newDate month =
     (case month of
        None \<Rightarrow> []
      | Some m \<Rightarrow>
          if m \<noteq> [] \<and> trim m \<noteq> [] then
            (case period_of newDate m of
               Some (monthNum, year) \<Rightarrow>
                 [(MonthYear monthNum year, [Some (PNum monthNum), Some (PNum year)])]
             | None \<Rightarrow> [])
          else [])"

definition customer_clause :: "string option \<Rightarrow> (condition \<times> param option list) list" where
  "customer_clause customer =
     (case customer of
        None \<Rightarrow> []
      | Some c \<Rightarrow>
          if c \<noteq> [] \<and> c \<noteq> ''All'' \<and> trim c \<noteq> [] then [(CustomerIs c, [Some (PStr c)])] else [])"

definition driver_clause :: "string option \<Rightarrow> (condition \<times> param option list) list" where
  "driver_clause driver =
     (case driver of
        None \<Rightarrow> []
      | Some d \<Rightarrow>
          if d \<noteq> [] \<and> d \<noteq> ''All'' \<and> trim d \<noteq> [] then [(DriverNameIs d, [Some (PStr d)])] else [])"

definition status_clause :: "string option \<Rightarrow> (condition \<times> param option list) list" where
  "status_clause status =
     (case status of
        None \<Rightarrow> []
      | Some s \<Rightarrow> if s \<noteq> [] \<and> trim s \<noteq> [] then [(StatusIs s, [Some (PStr s)])] else [])"

definition search_clause :: "string option \<Rightarrow> (condition \<times> param option list) list" where
  "search_clause search =
     (case search of
        None \<Rightarrow> []
      | Some s \<Rightarrow>
          if s \<noteq> [] \<and> trim s \<noteq> []
          then [(TicketNumberLike (''%'' @ s @ ''%''), [Some (PStr (''%'' @ s @ ''%''))])]
          else [])"

definition getAllTickets ::
  "(string \<Rightarrow> nat option) \<Rightarrow> db \<Rightarrow> ticket_query \<Rightarrow> error + ticket_row list" where
  "getAllTickets newDate db q =
     (let clauses = month_clause newDate (f_month q) @ customer_clause (f_customer q) @
                    driver_clause (f_driver q) @ status_clause (f_status q) @
                    search_clause (f_search q);
          params = concat (map snd clauses);
          validParams = filter (\<lambda>param. param \<noteq> None) params
      in if length validParams \<noteq> length params
         then Inl (ValidationError ''Invalid filter parameters provided'')
         else Inr (rev (sort_key (\<lambda>r. (t_date (r_ticket r), t_created_at (r_ticket r)))
                (filter (\<lambda>r. list_all (\<lambda>c. holds (eng db) c r) (map fst clauses))
                   (map (join_ticket db) (tickets db))))))"

section \<open>Ticket creation (\<^verbatim>\<open>createTicket\<close>, part_002 lines 142-236)\<close>

text \<open>
  The handler of the driver controller that accepts several comma-separated customers.
  \<^verbatim>\<open>req.user\<close> is the authenticated user. The request is a multipart form (the photo is
  \<^verbatim>\<open>req.file\<close>), so every body field is an optional string, the quantity too, and
  \<open>b_file\<close> is the name of the uploaded photo, when there is one.
\<close>

record auth_user =
  u_driverId :: "nat option"
  u_id :: nat

record ticket_body =
  b_date :: "string option"
  b_truck_number :: "string option"
  b_customer :: "string option"
  b_equipment_type :: "string option"
  b_ticket_number :: "string option"
  b_quantity :: "string option"
  b_file :: "string option"

record created =
  cr_id :: nat
  cr_ticket_number :: string
  cr_status :: string

text \<open>\<^verbatim>\<open>Array.prototype.join\<close>.\<close>

fun join_with :: "string \<Rightarrow> string list \<Rightarrow> string" where
  "join_with sep [] = []"
| "join_with sep [x] = x"
| "join_with sep (x # y # ys) = x @ sep @ join_with sep (y # ys)"

text \<open>Line 173: \<^verbatim>\<open>customer.split(',').map(name => name.trim()).filter(name => name.length > 0)\<close>.\<close>

definition customerNames_of :: "string \<Rightarrow> string list" where
  "customerNames_of customer =
     filter (\<lambda>name. length name > 0) (map trim (split CHR '','' customer))"

text \<open>
  Lines 183-187: \<^verbatim>\<open>SELECT default_bill_rate FROM customers WHERE name IN (...)\<close> returns
  one row for each stored customer whose name the collation finds equal to a name of the
  list.
\<close>

definition customersData_of :: "db \<Rightarrow> string list \<Rightarrow> customer list" where
  "customersData_of db customerNames =
     filter (\<lambda>c. list_ex (\<lambda>name. str_eq (eng db) (c_name c) name) customerNames) (customers db)"

text \<open>
  Lines 190-194: the sum of the rates from the left, divided by their count. Each rate is
  the text of a \<^verbatim>\<open>DECIMAL\<close>, on which \<^verbatim>\<open>parseFloat(x) || 0\<close> is the nearest double.
\<close>

definition resolve_bill_rate :: "db \<Rightarrow> string list \<Rightarrow> number" where
  "resolve_bill_rate db customerNames =
     (let customersData = customersData_of db customerNames
      in if length customersData > 0
         then fdiv (foldl (\<lambda>sum c. fadd sum (to_double (c_default_bill_rate c))) (Num 0) customersData)
                (Num (of_nat (length customersData)))
         else Num 0)"

text \<open>
  Line 196: \<^verbatim>\<open>driver.default_pay_rate || 0\<close>. The rate of the driver is the non-empty
  text of a \<^verbatim>\<open>DECIMAL(10, 2)\<close>, which the \<^verbatim>\<open>pay_rate\<close> column of the same type stores
  as it is; without a rate the number 0 is bound.
\<close>

definition payRate_number :: "driver \<Rightarrow> number" where
  "payRate_number driver =
     (case d_default_pay_rate driver of None \<Rightarrow> Num 0 | Some r \<Rightarrow> to_double r)"

definition payRate_column :: "engine \<Rightarrow> driver \<Rightarrow> rat option" where
  "payRate_column e driver =
     (case d_default_pay_rate driver of None \<Rightarrow> decimal_of_number e (Num 0) | Some r \<Rightarrow> Some r)"

text \<open>\<^verbatim>\<open>AUTO_INCREMENT\<close>: the new identifier is above every identifier of the table.\<close>

definition insertId_of :: "ticket list \<Rightarrow> nat" where
  "insertId_of ts = Suc (foldr max (map t_id ts) 0)"

text \<open>Lines 206-209: the path of the uploaded photo, \<^verbatim>\<open>null\<close> without an upload.\<close>

definition photoPath_of :: "string option \<Rightarrow> string option" where
  "photoPath_of file = (case file of None \<Rightarrow> None | Some filename \<Rightarrow> Some (''/uploads/'' @ filename))"

text \<open>Line 144: \<^verbatim>\<open>req.user.driverId || req.user.id\<close>.\<close>

definition driverId_of :: "auth_user \<Rightarrow> nat" where
  "driverId_of user =
     (case u_driverId user of None \<Rightarrow> u_id user | Some n \<Rightarrow> if n = 0 then u_id user else n)"

text \<open>
  Lines 212-217: the row of the \<^verbatim>\<open>INSERT\<close>, \<open>None\<close> when a column refuses its value. The
  quantity is bound as the string of the form, the bill rate and the totals as numbers.
\<close>

definition inserted_row ::
  "nat \<Rightarrow> db \<Rightarrow> driver \<Rightarrow> string \<Rightarrow> string \<Rightarrow> string \<Rightarrow> string \<Rightarrow> string \<Rightarrow> string
     \<Rightarrow> string option \<Rightarrow> number \<Rightarrow> number \<Rightarrow> number \<Rightarrow> ticket option" where
  "inserted_row now db driver date truck_number customerString equipment_type ticket_number
       quantity photoPath billRate totalBill totalPay =
     (case (sql_date date, decimal_of_string (eng db) quantity,
            decimal_of_number (eng db) billRate, payRate_column (eng db) driver,
            decimal_of_number (eng db) totalBill, decimal_of_number (eng db) totalPay) of
        (Some day, Some qty, Some bill, Some pay, Some tb, Some tp) \<Rightarrow>
          Some \<lparr>t_id = insertId_of (tickets db), t_driver_id = d_id driver,
                t_date = day, t_truck_number = truck_number,
                t_customer = customerString,
                t_equipment_type = equipment_type,
                t_ticket_number = ticket_number,
                t_quantity = qty, t_photo_path = photoPath,
                t_bill_rate = bill, t_pay_rate = pay,
                t_total_bill = tb, t_total_pay = tp,
                t_status = Pending, t_created_at = now,
                t_updated_at = now\<rparr>
      | _ \<Rightarrow> None)"

definition createTicket ::
  "nat \<Rightarrow> db \<Rightarrow> auth_user \<Rightarrow> ticket_body \<Rightarrow> (error + created) \<times> db" where
  "createTicket now db user body =
     (let driverId = driverId_of user
      in case filter (\<lambda>d. d_id d = driverId \<or> d_user_id d = u_id user) (drivers db) of
           [] \<Rightarrow> (Inl (NotFoundError ''Driver not found''), db)
         | driver # _ \<Rightarrow>
             (case (b_date body, b_truck_number body, b_customer body,
                    b_equipment_type body, b_ticket_number body, b_quantity body) of
                (Some date, Some truck_number, Some customer,
                 Some equipment_type, Some ticket_number, Some quantity) \<Rightarrow>
                  if date = [] \<or> truck_number = [] \<or> customer = [] \<or>
                     equipment_type = [] \<or> ticket_number = [] \<or> quantity = []
                  then (Inl (ValidationError
                          ''Date, truck number, customer, equipment type, ticket number, and quantity are required''),
                        db)
                  else
                    (let customerNames = customerNames_of customer in
                     if length customerNames = 0
                     then (Inl (ValidationError ''At least one customer is required''), db)
                     else
                       (let billRate = resolve_bill_rate db customerNames;
                            totalBill = fmul (parseFloat quantity) billRate;
                            totalPay = fmul (parseFloat quantity) (payRate_number driver);
                            customerString = join_with '', '' customerNames;
                            photoPath = photoPath_of (b_file body)
                        in case inserted_row now db driver date truck_number customerString
                                  equipment_type ticket_number quantity photoPath billRate
                                  totalBill totalPay of
                             None \<Rightarrow> (Inl (StorageError ''Failed to create ticket''), db)
                           | Some row \<Rightarrow>
                               (Inr \<lparr>cr_id = t_id row, cr_ticket_number = ticket_number,
                                     cr_status = ''Pending''\<rparr>,
                                db\<lparr>tickets := tickets db @ [row]\<rparr>)))
              | _ \<Rightarrow>
                  (Inl (ValidationError
                     ''Date, truck number, customer, equipment type, ticket number, and quantity are required''),
                   db)))"

section \<open>Batch update of the default bill rates (\<^verbatim>\<open>updateBillRates\<close>, part_001 lines 1276-1318)\<close>




section \<open>Example data\<close>

text \<open>A date parser that knows one date.\<close>

definition ex_newDate :: "string \<Rightarrow> nat option" where
  "ex_newDate s = (if s = ''November 1, 2025'' then Some 10 else None)"

text \<open>
  An engine for the examples. Text is compared after mapping the ASCII capitals to small
  letters and dropping the spaces at the end; \<^verbatim>\<open>LIKE\<close> has \<^verbatim>\<open>%\<close> for any run of
  characters, \<^verbatim>\<open>_\<close> for one character and the backslash as escape. A
  \<^verbatim>\<open>DECIMAL(10, 2)\<close> column rounds a finite value to two decimals, half away from zero, and
  refuses what does not fit ten digits, an infinity, \<^verbatim>\<open>NaN\<close> and text that is not a
  number. The status column reads a string that equals one of the three names.
\<close>

definition ascii_lower :: "char \<Rightarrow> char" where
  "ascii_lower c =
     (if 65 \<le> (of_char c :: nat) \<and> (of_char c :: nat) \<le> 90 then char_of ((of_char c :: nat) + 32)
      else c)"

definition ex_fold :: "string \<Rightarrow> string" where
  "ex_fold s = map ascii_lower (rev (dropWhile (\<lambda>c. c = CHR '' '') (rev s)))"

fun sql_like :: "string \<Rightarrow> string \<Rightarrow> bool" where
  "sql_like [] s = (s = [])"
| "sql_like (p # ps) s =
     (if p = CHR ''%'' then
        (sql_like ps s \<or> (case s of [] \<Rightarrow> False | _ # cs \<Rightarrow> sql_like (p # ps) cs))
      else if p = CHR ''_'' then
        (case s of [] \<Rightarrow> False | _ # cs \<Rightarrow> sql_like ps cs)
      else if p = CHR 0x5C then
        (case ps of
           [] \<Rightarrow> s = [p]
         | e # es \<Rightarrow> (case s of [] \<Rightarrow> False | c # cs \<Rightarrow> c = e \<and> sql_like es cs))
      else
        (case s of [] \<Rightarrow> False | c # cs \<Rightarrow> c = p \<and> sql_like ps cs))"

definition round_cents :: "rat \<Rightarrow> rat" where
  "round_cents x =
     (if 0 \<le> x then of_int \<lfloor>x * 100 + 1 / 2\<rfloor> / 100
      else - (of_int \<lfloor>- x * 100 + 1 / 2\<rfloor> / 100))"

definition ex_decimal :: "rat \<Rightarrow> rat option" where
  "ex_decimal x = (if \<bar>round_cents x\<bar> < 100000000 then Some (round_cents x) else None)"

definition ex_decimal_of_number :: "number \<Rightarrow> rat option" where
  "ex_decimal_of_number v = (case v of Num x \<Rightarrow> ex_decimal x | _ \<Rightarrow> None)"

definition ex_decimal_of_string :: "string \<Rightarrow> rat option" where
  "ex_decimal_of_string s =
     (case str_decimal s of
        None \<Rightarrow> None
      | Some (v, rest) \<Rightarrow> if rest = [] then ex_decimal v else None)"

definition ex_enum_of_string :: "string \<Rightarrow> status option" where
  "ex_enum_of_string s =
     find (\<lambda>v. ex_fold (status_name v) = ex_fold s) [Pending, Approved, Rejected]"

definition ex_engine :: engine where
  "ex_engine =
     \<lparr>str_eq = (\<lambda>a b. ex_fold a = ex_fold b),
      str_like = (\<lambda>a pat. sql_like (map ascii_lower pat) (map ascii_lower a)),
      decimal_of_number = ex_decimal_of_number,
      decimal_of_string = ex_decimal_of_string,
      enum_of_string = ex_enum_of_string\<rparr>"

definition ex_customers :: "customer list" where
  "ex_customers =
     [\<lparr>c_id = 1, c_name = ''A'', c_default_bill_rate = 100, c_updated_at = 0\<rparr>,
      \<lparr>c_id = 2, c_name = ''B'', c_default_bill_rate = 200, c_updated_at = 0\<rparr>]"

definition ex_drivers :: "driver list" where
  "ex_drivers =
     [\<lparr>d_id = 1, d_user_id = 11, d_user_id_code = ''D1'', d_name = ''Dana'',
       d_default_pay_rate = Some 30\<rparr>,
      \<lparr>d_id = 2, d_user_id = 12, d_user_id_code = ''D2'', d_name = ''Eli'',
       d_default_pay_rate = None\<rparr>]"

text \<open>A ticket of driver 1 for customer A with the given quantity, rates and totals.\<close>

definition ex_line :: "nat \<Rightarrow> date \<Rightarrow> status \<Rightarrow> rat \<Rightarrow> rat \<Rightarrow> rat \<Rightarrow> ticket" where
  "ex_line i day st qty bill pay =
     \<lparr>t_id = i, t_driver_id = 1, t_date = day, t_truck_number = ''TRUCK-001'',
      t_customer = ''A'', t_equipment_type = ''Tandem'', t_ticket_number = ''T-100'',
      t_quantity = qty, t_photo_path = None, t_bill_rate = bill, t_pay_rate = pay,
      t_total_bill = qty * bill, t_total_pay = qty * pay, t_status = st,
      t_created_at = 5, t_updated_at = 5\<rparr>"

text \<open>One ticket of each status in November 2025, the latest first in the table.\<close>

definition ex_db :: db where
  "ex_db =
     \<lparr>customers = ex_customers, drivers = ex_drivers,
      tickets = [ex_line 1 (2025, 11, 20) Rejected 3 100 30,
                 ex_line 2 (2025, 11, 10) Approved 2 100 30,
                 ex_line 3 (2025, 11, 5) Pending 1 100 30],
      eng = ex_engine\<rparr>"

text \<open>
  Three tickets with amounts in cents: bills of 100.00 and 250.50 (approved) and of 40.00
  (pending), and a pay of 0.10 each.
\<close>

definition ex_cents_db :: db where
  "ex_cents_db =
     \<lparr>customers = ex_customers, drivers = ex_drivers,
      tickets = [ex_line 1 (2025, 11, 5) Approved 1 100 (1 / 10),
                 ex_line 2 (2025, 11, 6) Approved 1 (501 / 2) (1 / 10),
                 ex_line 3 (2025, 11, 7) Pending 1 40 (1 / 10)],
      eng = ex_engine\<rparr>"

text \<open>Three customers with the rates 100.00, 100.00 and 101.00, and no ticket yet.\<close>

definition ex_rates_db :: db where
  "ex_rates_db =
     \<lparr>customers =
        [\<lparr>c_id = 1, c_name = ''A'', c_default_bill_rate = 100, c_updated_at = 0\<rparr>,
         \<lparr>c_id = 2, c_name = ''B'', c_default_bill_rate = 100, c_updated_at = 0\<rparr>,
         \<lparr>c_id = 3, c_name = ''C'', c_default_bill_rate = 101, c_updated_at = 0\<rparr>],
      drivers = ex_drivers, tickets = [], eng = ex_engine\<rparr>"

section \<open>Facts about the tables\<close>

lemma update_rows_no_match:
  "list_all (\<lambda>r. \<not> cond r) rows \<Longrightarrow> update_rows cond f rows = Some rows"
  by (induction rows) auto

lemma update_where_no_match:
  "list_all (\<lambda>r. \<not> cond r) rows \<Longrightarrow> update_where cond f rows = rows"
  by (induction rows) (auto simp: update_where_def)

lemma filter_no_match:
  "list_all (\<lambda>r. \<not> cond r) rows \<Longrightarrow> filter cond rows = []"
  by (induction rows) auto













section \<open>Ticket update: totals, empty patch, status\<close>




text \<open>
  C9. The empty patch \<^verbatim>\<open>{}\<close> is answered with the validation error
  \<^verbatim>\<open>No fields to update\<close>, whatever the ticket identifier, and the tables are the ones
  before the request.
\<close>

theorem updateTicket_empty_patch:
  "updateTicket now db tid
     \<lparr>p_bill_rate = None, p_pay_rate = None, p_status = None, p_quantity = None\<rparr>
   = (Inl (ValidationError ''No fields to update''), db)"
  by (simp add: updateTicket_def patch_updates_def)

text \<open>
  C10. With a valid status and an identifier that no ticket has,
  \<^verbatim>\<open>updateTicketStatus\<close> answers with success and the tables are the ones before the
  request, whereas \<^verbatim>\<open>updateTicket\<close> with the same status answers that the ticket was not
  found.
\<close>

theorem updateTicketStatus_missing_ticket:
  assumes "s \<in> set valid_statuses" and "list_all (\<lambda>t. t_id t \<noteq> tid) (tickets db)"
  shows "updateTicketStatus now db tid (Some s)
           = (Inr ''Ticket status updated successfully'', db)
       \<and> updateTicket now db tid
           \<lparr>p_bill_rate = None, p_pay_rate = None, p_status = Some s, p_quantity = None\<rparr>
           = (Inl (NotFoundError ''Ticket not found''), db)"
proof -
  have nonempty: "s \<noteq> []"
    using assms(1) by (auto simp: valid_statuses_def)
  have none_selected: "filter (\<lambda>t. t_id t = tid) (tickets db) = []"
    using assms(2) by (simp add: filter_no_match)
  have untouched: "update_rows (\<lambda>t. t_id t = tid) f (tickets db) = Some (tickets db)" for f
    using assms(2) by (simp add: update_rows_no_match)
  show ?thesis
    using assms(1) nonempty none_selected untouched
    by (simp add: updateTicketStatus_def updateTicket_def patch_updates_def)
qed

theorem updateTicketStatus_missing_ticket_witness:
  "updateTicketStatus 9 ex_db 7 (Some ''Approved'')
     = (Inr ''Ticket status updated successfully'', ex_db)
   \<and> updateTicket 9 ex_db 7
       \<lparr>p_bill_rate = None, p_pay_rate = None, p_status = Some ''Approved'', p_quantity = None\<rparr>
     = (Inl (NotFoundError ''Ticket not found''), ex_db)"
  using updateTicketStatus_missing_ticket [of "''Approved''" 7 ex_db 9]
  by (simp add: valid_statuses_def ex_db_def ex_line_def)

text \<open>
  C6. \<^verbatim>\<open>updateTicket\<close> never compares the status of a patch with the three valid values.
  With a non-empty status in the patch, whatever it is, the answer is never a validation
  error: it is \<^verbatim>\<open>Ticket not found\<close>, or the failure of the \<^verbatim>\<open>catch\<close> block (status 500)
  with the tables unchanged, or success. On ticket 2 of the example the status
  \<^verbatim>\<open>Bogus\<close>, which the \<^verbatim>\<open>ENUM\<close> column refuses, is answered with the failure
  \<^verbatim>\<open>Failed to update ticket\<close>, while \<^verbatim>\<open>updateTicketStatus\<close> answers the same status with
  the validation error.
\<close>

theorem updateTicket_status_not_validated:
  assumes "p_status p = Some s" and "s \<noteq> []"
  shows "fst (updateTicket now db tid p) = Inl (NotFoundError ''Ticket not found'')
       \<or> updateTicket now db tid p = (Inl (StorageError ''Failed to update ticket''), db)
       \<or> fst (updateTicket now db tid p) = Inr ''Ticket updated successfully''"
proof -
  have "patch_updates p \<noteq> []"
    using assms by (simp add: patch_updates_def)
  then show ?thesis
    by (simp add: updateTicket_def split: list.splits option.splits)
qed

theorem updateTicket_status_not_validated_witness:
  "updateTicket 9 ex_db 2
     \<lparr>p_bill_rate = None, p_pay_rate = None, p_status = Some ''Bogus'', p_quantity = None\<rparr>
     = (Inl (StorageError ''Failed to update ticket''), ex_db)
   \<and> updateTicketStatus 9 ex_db 2 (Some ''Bogus'')
     = (Inl (ValidationError ''Valid status is required (Pending, Approved, or Rejected)''), ex_db)"
proof -
  let ?p = "\<lparr>p_bill_rate = None, p_pay_rate = None, p_status = Some ''Bogus'',
            p_quantity = None\<rparr>"
  have "fst (updateTicket 9 ex_db 2 ?p) = Inl (StorageError ''Failed to update ticket'')"
    by code_simp
  then have "updateTicket 9 ex_db 2 ?p = (Inl (StorageError ''Failed to update ticket''), ex_db)"
    using updateTicket_status_not_validated [of ?p "''Bogus''" 9 ex_db 2] by auto
  then show ?thesis
    by (simp add: updateTicketStatus_def valid_statuses_def)
qed

text \<open>
  Two more patches with a status outside the three values. The empty string is falsy: the
  status is skipped and the other fields of the patch are written. With the engine of the
  examples, whose status column reads a name without regard to the case of its letters,
  \<^verbatim>\<open>approved\<close> is written as \<^verbatim>\<open>Approved\<close> to the pending ticket 3.
\<close>

lemma updateTicket_empty_status_ignored:
  "fst (updateTicket 9 ex_db 2
          \<lparr>p_bill_rate = None, p_pay_rate = None, p_status = Some [], p_quantity = Some 5\<rparr>)
     = Inr ''Ticket updated successfully''
   \<and> map t_quantity (tickets (snd (updateTicket 9 ex_db 2
          \<lparr>p_bill_rate = None, p_pay_rate = None, p_status = Some [], p_quantity = Some 5\<rparr>)))
     = [3, 5, 1]"
  by code_simp

lemma updateTicket_status_letter_case:
  "map t_status (tickets ex_db) = [Rejected, Approved, Pending]
   \<and> fst (updateTicket 9 ex_db 3
          \<lparr>p_bill_rate = None, p_pay_rate = None, p_status = Some ''approved'',
           p_quantity = None\<rparr>)
     = Inr ''Ticket updated successfully''
   \<and> map t_status (tickets (snd (updateTicket 9 ex_db 3
          \<lparr>p_bill_rate = None, p_pay_rate = None, p_status = Some ''approved'',
           p_quantity = None\<rparr>)))
     = [Rejected, Approved, Approved]"
  by code_simp

section \<open>Invoices and settlements\<close>

lemma il_ticket_join_driver: "il_ticket (join_driver db t) = t"
  by (simp add: join_driver_def Let_def)

lemma sl_ticket_join_customer: "sl_ticket (join_customer db t) = t"
  by (simp add: join_customer_def)

lemma sql_date_nonempty: "sql_date s = Some d \<Longrightarrow> s \<noteq> []"
  by (auto simp: sql_date_def dateRegex_def split: if_splits)

lemma sql_date_dateRegex: "sql_date s = Some d \<Longrightarrow> dateRegex s"
  by (auto simp: sql_date_def split: if_splits)

lemma ex_dates:
  "sql_date ''2025-11-01'' = Some (2025, 11, 1)" "sql_date ''2025-11-30'' = Some (2025, 11, 30)"
  by (simp_all add: sql_date_def dateRegex_def is_digit_def digits_val_def)

text \<open>The double of \<^verbatim>\<open>0.05\<close>, and of zero.\<close>

lemma gst_rate: "to_double (5 / 100) = Num (3602879701896397 / 72057594037927936)"
  by code_simp

lemma to_double_zero: "to_double 0 = Num 0"
  by (simp add: to_double_def)

text \<open>
  C2, as the handler has it. For a request that names a customer identifier and two
  \<^verbatim>\<open>YYYY-MM-DD\<close> dates \<open>d1\<close> and \<open>d2\<close>: when no customer has the identifier the answer is
  \<^verbatim>\<open>Customer not found\<close>; otherwise the invoice lists exactly the tickets whose customer
  field the collation finds equal to the customer's name, whose status is \<^verbatim>\<open>Approved\<close>
  and whose date is in \<open>[d1, d2]\<close>, in ascending order of date. The subtotal is the sum
  in doubles, from the left and in the order of the list, of the doubles nearest to their
  \<open>total_bill\<close>; the GST is the double product of the subtotal and the double of 0.05;
  the total is the double sum of the two. When no ticket is selected the three amounts
  are zero.
\<close>

theorem generateInvoice_selects_and_adds:
  assumes "q_customerId q = Some cid" and "q_startDate q = Some sd" and "q_endDate q = Some ed"
    and "sql_date sd = Some d1" and "sql_date ed = Some d2"
  shows "(list_all (\<lambda>c. c_id c \<noteq> cid) (customers db) \<longrightarrow>
            generateInvoice db q = Inl (NotFoundError ''Customer not found''))
     \<and> (\<forall>c rest. filter (\<lambda>c. c_id c = cid) (customers db) = c # rest \<longrightarrow>
          (\<exists>inv. generateInvoice db q = Inr inv
             \<and> mset (map il_ticket (inv_tickets inv))
                 = mset (filter (\<lambda>t. str_eq (eng db) (t_customer t) (c_name c)
                                      \<and> t_status t = Approved
                                      \<and> d1 \<le> t_date t \<and> t_date t \<le> d2) (tickets db))
             \<and> sorted (map (\<lambda>l. t_date (il_ticket l)) (inv_tickets inv))
             \<and> inv_subtotal inv
                 = foldl fadd (Num 0)
                     (map (\<lambda>l. to_double (t_total_bill (il_ticket l))) (inv_tickets inv))
             \<and> inv_gst inv = fmul (inv_subtotal inv) (to_double (5 / 100))
             \<and> inv_total inv = fadd (inv_subtotal inv) (inv_gst inv)
             \<and> (inv_tickets inv = [] \<longrightarrow>
                  inv_subtotal inv = Num 0 \<and> inv_gst inv = Num 0 \<and> inv_total inv = Num 0)))"
proof (intro conjI impI allI)
  have dates: "sd \<noteq> []" "ed \<noteq> []"
    using assms by (auto dest: sql_date_nonempty)
  {
    assume "list_all (\<lambda>c. c_id c \<noteq> cid) (customers db)"
    then have "filter (\<lambda>c. c_id c = cid) (customers db) = []"
      by (simp add: filter_empty_conv list_all_iff)
    then show "generateInvoice db q = Inl (NotFoundError ''Customer not found'')"
      using assms dates by (simp add: generateInvoice_def)
  }
  fix c rest
  assume found: "filter (\<lambda>c. c_id c = cid) (customers db) = c # rest"
  define sel where
    "sel = filter (\<lambda>t. str_eq (eng db) (t_customer t) (c_name c) \<and> t_status t = Approved
                       \<and> d1 \<le> t_date t \<and> t_date t \<le> d2) (tickets db)"
  define lines where
    "lines = sort_key (\<lambda>l. t_date (il_ticket l)) (map (join_driver db) sel)"
  define subtotal where
    "subtotal = foldl fadd (Num 0) (map (\<lambda>l. to_double (t_total_bill (il_ticket l))) lines)"
  define inv where "inv = \<lparr>inv_customer = c_name c, inv_startDate = sd, inv_endDate = ed,
     inv_tickets = lines, inv_subtotal = subtotal,
     inv_gst = fmul subtotal (to_double (5 / 100)),
     inv_total = fadd subtotal (fmul subtotal (to_double (5 / 100)))\<rparr>"
  have response: "generateInvoice db q = Inr inv"
    using assms dates found
    by (simp add: generateInvoice_def Let_def inv_def subtotal_def lines_def sel_def foldl_map)
  have same_tickets: "mset (map il_ticket lines) = mset sel"
    by (simp add: lines_def multiset.map_comp comp_def il_ticket_join_driver)
  have ascending: "sorted (map (\<lambda>l. t_date (il_ticket l)) lines)"
    by (simp add: lines_def sorted_sort_key)
  have fields: "inv_tickets inv = lines" "inv_subtotal inv = subtotal"
    "inv_gst inv = fmul subtotal (to_double (5 / 100))"
    "inv_total inv = fadd subtotal (fmul subtotal (to_double (5 / 100)))"
    by (simp_all add: inv_def)
  show "\<exists>inv. generateInvoice db q = Inr inv
             \<and> mset (map il_ticket (inv_tickets inv))
                 = mset (filter (\<lambda>t. str_eq (eng db) (t_customer t) (c_name c)
                                      \<and> t_status t = Approved
                                      \<and> d1 \<le> t_date t \<and> t_date t \<le> d2) (tickets db))
             \<and> sorted (map (\<lambda>l. t_date (il_ticket l)) (inv_tickets inv))
             \<and> inv_subtotal inv
                 = foldl fadd (Num 0)
                     (map (\<lambda>l. to_double (t_total_bill (il_ticket l))) (inv_tickets inv))
             \<and> inv_gst inv = fmul (inv_subtotal inv) (to_double (5 / 100))
             \<and> inv_total inv = fadd (inv_subtotal inv) (inv_gst inv)
             \<and> (inv_tickets inv = [] \<longrightarrow>
                  inv_subtotal inv = Num 0 \<and> inv_gst inv = Num 0 \<and> inv_total inv = Num 0)"
  proof (intro exI [of _ inv] conjI impI)
    show "generateInvoice db q = Inr inv"
      by (rule response)
    show "mset (map il_ticket (inv_tickets inv))
            = mset (filter (\<lambda>t. str_eq (eng db) (t_customer t) (c_name c)
                                 \<and> t_status t = Approved
                                 \<and> d1 \<le> t_date t \<and> t_date t \<le> d2) (tickets db))"
      using same_tickets by (simp only: fields sel_def)
    show "sorted (map (\<lambda>l. t_date (il_ticket l)) (inv_tickets inv))"
      using ascending by (simp only: fields)
    show "inv_subtotal inv
            = foldl fadd (Num 0)
                (map (\<lambda>l. to_double (t_total_bill (il_ticket l))) (inv_tickets inv))"
      by (simp only: fields subtotal_def)
    show "inv_gst inv = fmul (inv_subtotal inv) (to_double (5 / 100))"
      by (simp only: fields)
    show "inv_total inv = fadd (inv_subtotal inv) (inv_gst inv)"
      by (simp only: fields)
    assume "inv_tickets inv = []"
    then have "subtotal = Num 0"
      by (simp add: fields subtotal_def)
    then show "inv_subtotal inv = Num 0" "inv_gst inv = Num 0" "inv_total inv = Num 0"
      by (simp_all only: fields gst_rate fmul.simps fadd.simps mult_zero_left add_0_left
            to_double_zero)
  qed
qed

theorem generateInvoice_selects_and_adds_witness:
  "\<exists>inv. generateInvoice ex_db
       \<lparr>q_customerId = Some 1, q_startDate = Some ''2025-11-01'', q_endDate = Some ''2025-11-30''\<rparr>
       = Inr inv
     \<and> mset (map il_ticket (inv_tickets inv)) = {#ex_line 2 (2025, 11, 10) Approved 2 100 30#}
     \<and> inv_gst inv = fmul (inv_subtotal inv) (to_double (5 / 100))
     \<and> inv_total inv = fadd (inv_subtotal inv) (inv_gst inv)"
proof -
  let ?q = "\<lparr>q_customerId = Some 1, q_startDate = Some ''2025-11-01'',
            q_endDate = Some ''2025-11-30''\<rparr>"
  let ?c = "\<lparr>c_id = 1, c_name = ''A'', c_default_bill_rate = 100, c_updated_at = 0\<rparr>"
  have q: "q_customerId ?q = Some 1" "q_startDate ?q = Some ''2025-11-01''"
    "q_endDate ?q = Some ''2025-11-30''"
    by simp_all
  have known: "filter (\<lambda>c. c_id c = 1) (customers ex_db) = ?c # []"
    by (simp add: ex_db_def ex_customers_def)
  have selected: "filter (\<lambda>t. str_eq (eng ex_db) (t_customer t) (c_name ?c)
                       \<and> t_status t = Approved
                       \<and> (2025, 11, 1) \<le> t_date t \<and> t_date t \<le> (2025, 11, 30)) (tickets ex_db)
      = [ex_line 2 (2025, 11, 10) Approved 2 100 30]"
    by (simp add: ex_db_def ex_line_def ex_engine_def)
  obtain inv where inv: "generateInvoice ex_db ?q = Inr inv"
    "mset (map il_ticket (inv_tickets inv))
       = mset (filter (\<lambda>t. str_eq (eng ex_db) (t_customer t) (c_name ?c)
                       \<and> t_status t = Approved
                       \<and> (2025, 11, 1) \<le> t_date t \<and> t_date t \<le> (2025, 11, 30)) (tickets ex_db))"
    "inv_gst inv = fmul (inv_subtotal inv) (to_double (5 / 100))"
    "inv_total inv = fadd (inv_subtotal inv) (inv_gst inv)"
    using generateInvoice_selects_and_adds [OF q ex_dates, of ex_db] known by blast
  show ?thesis
    using inv unfolding selected by (intro exI [of _ inv]) simp
qed

text \<open>
  C2, as stated, fails on the example: the approved tickets of customer A bill 100.00 and
  250.50, the subtotal is 350.5, and the GST of the invoice is the double
  17.525000000000002..., which is not 350.5 times 5/100 = 17.525.
\<close>

theorem generateInvoice_gst_not_exact:
  "map_sum id inv_subtotal
     (generateInvoice ex_cents_db
       \<lparr>q_customerId = Some 1, q_startDate = Some ''2025-11-01'',
        q_endDate = Some ''2025-11-30''\<rparr>) = Inr (Num (701 / 2))
   \<and> map_sum id inv_gst
     (generateInvoice ex_cents_db
       \<lparr>q_customerId = Some 1, q_startDate = Some ''2025-11-01'',
        q_endDate = Some ''2025-11-30''\<rparr>) = Inr (Num (4932848966854247 / 281474976710656))
   \<and> (4932848966854247 / 281474976710656 :: rat) \<noteq> 701 / 2 * (5 / 100)"
  by code_simp

text \<open>The lines and the three amounts of that invoice.\<close>

lemma generateInvoice_example_amounts:
  "map_sum id (\<lambda>inv. (map (\<lambda>l. t_id (il_ticket l)) (inv_tickets inv), inv_subtotal inv,
        inv_gst inv, inv_total inv))
     (generateInvoice ex_cents_db
       \<lparr>q_customerId = Some 1, q_startDate = Some ''2025-11-01'',
        q_endDate = Some ''2025-11-30''\<rparr>)
     = Inr ([1, 2], Num (701 / 2), Num (4932848966854247 / 281474976710656),
            Num (3237182134498099 / 8796093022208))"
  by code_simp

text \<open>
  C3, as the handler has it. For a request that names a driver identifier and two
  \<^verbatim>\<open>YYYY-MM-DD\<close> dates \<open>d1\<close> and \<open>d2\<close>: when no driver has the identifier the answer is
  \<^verbatim>\<open>Driver not found\<close>; otherwise the settlement lists exactly the tickets of that driver
  whose date is in \<open>[d1, d2]\<close>, whatever their status, in ascending order of date, and
  \<open>totalPay\<close> is the sum in doubles, from the left and in the order of the list, of the
  doubles nearest to their \<open>total_pay\<close>. In the example the three tickets of the driver
  are pending, approved and rejected: the settlement holds all three, where the invoice
  above holds the approved one only.
\<close>

theorem generateSettlement_selects_and_adds:
  assumes "s_driverId q = Some did" and "s_startDate q = Some sd" and "s_endDate q = Some ed"
    and "sql_date sd = Some d1" and "sql_date ed = Some d2"
  shows "(list_all (\<lambda>d. d_id d \<noteq> did) (drivers db) \<longrightarrow>
            generateSettlement db q = Inl (NotFoundError ''Driver not found''))
     \<and> (\<forall>d rest. filter (\<lambda>d. d_id d = did) (drivers db) = d # rest \<longrightarrow>
          (\<exists>st. generateSettlement db q = Inr st
             \<and> mset (map sl_ticket (stl_tickets st))
                 = mset (filter (\<lambda>t. t_driver_id t = did \<and> d1 \<le> t_date t \<and> t_date t \<le> d2)
                           (tickets db))
             \<and> sorted (map (\<lambda>l. t_date (sl_ticket l)) (stl_tickets st))
             \<and> stl_totalPay st
                 = foldl fadd (Num 0)
                     (map (\<lambda>l. to_double (t_total_pay (sl_ticket l))) (stl_tickets st))))"
proof (intro conjI impI allI)
  have dates: "sd \<noteq> []" "ed \<noteq> []" "dateRegex sd" "dateRegex ed"
    using assms by (auto dest: sql_date_nonempty sql_date_dateRegex)
  {
    assume "list_all (\<lambda>d. d_id d \<noteq> did) (drivers db)"
    then have "filter (\<lambda>d. d_id d = did) (drivers db) = []"
      by (simp add: filter_empty_conv list_all_iff)
    then show "generateSettlement db q = Inl (NotFoundError ''Driver not found'')"
      using assms dates by (simp add: generateSettlement_def)
  }
  fix d rest
  assume found: "filter (\<lambda>d. d_id d = did) (drivers db) = d # rest"
  define sel where
    "sel = filter (\<lambda>t. t_driver_id t = did \<and> d1 \<le> t_date t \<and> t_date t \<le> d2) (tickets db)"
  define lines where
    "lines = sort_key (\<lambda>l. t_date (sl_ticket l)) (map (join_customer db) sel)"
  define totalPay where
    "totalPay = foldl fadd (Num 0) (map (\<lambda>l. to_double (t_total_pay (sl_ticket l))) lines)"
  define st where "st = \<lparr>stl_driver_id = d_id d, stl_driver_name = d_name d,
     stl_driver_code = d_user_id_code d, stl_startDate = sd, stl_endDate = ed,
     stl_tickets = lines, stl_totalPay = totalPay\<rparr>"
  have response: "generateSettlement db q = Inr st"
    using assms dates found
    by (simp add: generateSettlement_def Let_def st_def totalPay_def lines_def sel_def foldl_map)
  have same_tickets: "mset (map sl_ticket lines) = mset sel"
    by (simp add: lines_def multiset.map_comp comp_def sl_ticket_join_customer)
  have ascending: "sorted (map (\<lambda>l. t_date (sl_ticket l)) lines)"
    by (simp add: lines_def sorted_sort_key)
  show "\<exists>st. generateSettlement db q = Inr st
             \<and> mset (map sl_ticket (stl_tickets st))
                 = mset (filter (\<lambda>t. t_driver_id t = did \<and> d1 \<le> t_date t \<and> t_date t \<le> d2)
                           (tickets db))
             \<and> sorted (map (\<lambda>l. t_date (sl_ticket l)) (stl_tickets st))
             \<and> stl_totalPay st
                 = foldl fadd (Num 0)
                     (map (\<lambda>l. to_double (t_total_pay (sl_ticket l))) (stl_tickets st))"
    using response same_tickets ascending
    by (intro exI [of _ st]) (simp add: st_def sel_def totalPay_def)
qed

theorem generateSettlement_selects_and_adds_witness:
  "\<exists>st. generateSettlement ex_db
       \<lparr>s_driverId = Some 1, s_startDate = Some ''2025-11-01'', s_endDate = Some ''2025-11-30''\<rparr>
       = Inr st
     \<and> mset (map (\<lambda>l. t_status (sl_ticket l)) (stl_tickets st))
         = {#Rejected, Approved, Pending#}
     \<and> sorted (map (\<lambda>l. t_date (sl_ticket l)) (stl_tickets st))
     \<and> stl_totalPay st
         = foldl fadd (Num 0)
             (map (\<lambda>l. to_double (t_total_pay (sl_ticket l))) (stl_tickets st))"
proof -
  let ?q = "\<lparr>s_driverId = Some 1, s_startDate = Some ''2025-11-01'',
            s_endDate = Some ''2025-11-30''\<rparr>"
  have q: "s_driverId ?q = Some 1" "s_startDate ?q = Some ''2025-11-01''"
    "s_endDate ?q = Some ''2025-11-30''"
    by simp_all
  have known: "filter (\<lambda>d. d_id d = 1) (drivers ex_db)
      = \<lparr>d_id = 1, d_user_id = 11, d_user_id_code = ''D1'', d_name = ''Dana'',
          d_default_pay_rate = Some 30\<rparr> # []"
    by (simp add: ex_db_def ex_drivers_def)
  have selected: "filter (\<lambda>t. t_driver_id t = 1 \<and> (2025, 11, 1) \<le> t_date t
                       \<and> t_date t \<le> (2025, 11, 30)) (tickets ex_db) = tickets ex_db"
    by (simp add: ex_db_def ex_line_def)
  obtain st where st: "generateSettlement ex_db ?q = Inr st"
    "mset (map sl_ticket (stl_tickets st))
       = mset (filter (\<lambda>t. t_driver_id t = 1 \<and> (2025, 11, 1) \<le> t_date t
                       \<and> t_date t \<le> (2025, 11, 30)) (tickets ex_db))"
    "sorted (map (\<lambda>l. t_date (sl_ticket l)) (stl_tickets st))"
    "stl_totalPay st
       = foldl fadd (Num 0) (map (\<lambda>l. to_double (t_total_pay (sl_ticket l))) (stl_tickets st))"
    using generateSettlement_selects_and_adds [OF q ex_dates, of ex_db] known by blast
  have "mset (map (\<lambda>l. t_status (sl_ticket l)) (stl_tickets st))
          = image_mset t_status (mset (map sl_ticket (stl_tickets st)))"
    by (simp add: multiset.map_comp comp_def)
  also have "\<dots> = {#Rejected, Approved, Pending#}"
    unfolding st(2) selected by (simp add: ex_db_def ex_line_def)
  finally show ?thesis
    using st(1,3,4) by blast
qed

text \<open>
  C3, as stated, fails on the example: the three tickets of driver 1 pay 0.10 each, and
  \<open>totalPay\<close> is the double 0.30000000000000004..., which is not 3/10.
\<close>

theorem generateSettlement_total_not_exact:
  "map_sum id stl_totalPay
     (generateSettlement ex_cents_db
       \<lparr>s_driverId = Some 1, s_startDate = Some ''2025-11-01'',
        s_endDate = Some ''2025-11-30''\<rparr>) = Inr (Num (1351079888211149 / 4503599627370496))
   \<and> map t_total_pay (tickets ex_cents_db) = [1 / 10, 1 / 10, 1 / 10]
   \<and> (1351079888211149 / 4503599627370496 :: rat) \<noteq> 1 / 10 + 1 / 10 + 1 / 10"
  by code_simp

section \<open>Ticket query: the period token\<close>

lemma show_2025: "show_int 2025 = ''2025''"
  by code_simp

lemma parse_month_iso: "parse_month newDate ''2025-11'' = (Some 11, Some 2025)"
  by (simp add: parse_month_def parseInt_def is_space_def is_digit_def digits_val_def)

lemma parse_month_name:
  "parse_month newDate ''November 2025''
     = (map_option (\<lambda>m. int m + 1) (newDate ''November 1, 2025''), Some 2025)"
  by (simp add: parse_month_def parseInt_def is_space_def is_digit_def digits_val_def show_2025)

lemma parse_month_garbage: "parse_month newDate ''garbage'' = (None, None)"
  by (simp add: parse_month_def)

lemma trim_tokens: "trim ''2025-11'' \<noteq> []" "trim ''November 2025'' \<noteq> []"
  by (simp_all add: trim_def is_space_def)

lemma params_all_bound:
  "list_all (\<lambda>param. param \<noteq> None) (concat (map snd (month_clause newDate m)))"
  "list_all (\<lambda>param. param \<noteq> None) (concat (map snd (customer_clause c)))"
  "list_all (\<lambda>param. param \<noteq> None) (concat (map snd (driver_clause d)))"
  "list_all (\<lambda>param. param \<noteq> None) (concat (map snd (status_clause s)))"
  "list_all (\<lambda>param. param \<noteq> None) (concat (map snd (search_clause x)))"
  by (auto simp: month_clause_def customer_clause_def driver_clause_def status_clause_def
        search_clause_def split: option.splits)

lemma filter_all_bound:
  "list_all P xs \<Longrightarrow> filter P xs = xs"
  by (induction xs) auto

lemma getAllTickets_rows:
  "getAllTickets newDate db q =
     Inr (rev (sort_key (\<lambda>r. (t_date (r_ticket r), t_created_at (r_ticket r)))
        (filter (\<lambda>r. list_all (\<lambda>c. holds (eng db) c r)
            (map fst (month_clause newDate (f_month q) @ customer_clause (f_customer q) @
                    driver_clause (f_driver q) @ status_clause (f_status q) @
                    search_clause (f_search q))))
           (map (join_ticket db) (tickets db)))))"
proof -
  let ?params = "concat (map snd (month_clause newDate (f_month q) @ customer_clause (f_customer q) @
                    driver_clause (f_driver q) @ status_clause (f_status q) @
                    search_clause (f_search q)))"
  have "list_all (\<lambda>param. param \<noteq> None) ?params"
    using params_all_bound by simp
  then have "filter (\<lambda>param. param \<noteq> None) ?params = ?params"
    by (rule filter_all_bound)
  then show ?thesis
    by (simp add: getAllTickets_def Let_def)
qed

text \<open>
  C5. Whenever the date parser of the engine reads \<^verbatim>\<open>November 1, 2025\<close> as a date in
  November, the queries with the period tokens \<^verbatim>\<open>2025-11\<close> and \<^verbatim>\<open>November 2025\<close> give
  the same answer (both filter on month 11 of 2025). A token for which no valid month and
  year are found, \<^verbatim>\<open>garbage\<close> among them, gives the answer of the query without a period.
  For every parser, table and query the answer is a list of rows, never an error.
\<close>

theorem getAllTickets_period_tokens:
  assumes "newDate ''November 1, 2025'' = Some 10"
  shows "getAllTickets newDate db (q\<lparr>f_month := Some ''2025-11''\<rparr>)
           = getAllTickets newDate db (q\<lparr>f_month := Some ''November 2025''\<rparr>)
     \<and> month_clause newDate (Some ''2025-11'')
           = [(MonthYear 11 2025, [Some (PNum 11), Some (PNum 2025)])]
     \<and> (\<forall>tok. period_of newDate tok = None \<longrightarrow>
           getAllTickets newDate db (q\<lparr>f_month := Some tok\<rparr>)
             = getAllTickets newDate db (q\<lparr>f_month := None\<rparr>))
     \<and> getAllTickets newDate db (q\<lparr>f_month := Some ''garbage''\<rparr>)
           = getAllTickets newDate db (q\<lparr>f_month := None\<rparr>)
     \<and> (\<exists>rows. getAllTickets newDate db q = Inr rows)"
proof (intro conjI allI impI)
  have iso: "month_clause newDate (Some ''2025-11'')
           = [(MonthYear 11 2025, [Some (PNum 11), Some (PNum 2025)])]"
    by (simp add: month_clause_def period_of_def parse_month_iso trim_tokens)
  have name: "month_clause newDate (Some ''November 2025'')
           = [(MonthYear 11 2025, [Some (PNum 11), Some (PNum 2025)])]"
    using assms by (simp add: month_clause_def period_of_def parse_month_name trim_tokens)
  show "getAllTickets newDate db (q\<lparr>f_month := Some ''2025-11''\<rparr>)
           = getAllTickets newDate db (q\<lparr>f_month := Some ''November 2025''\<rparr>)"
    by (simp add: getAllTickets_def iso name)
  show "month_clause newDate (Some ''2025-11'')
           = [(MonthYear 11 2025, [Some (PNum 11), Some (PNum 2025)])]"
    by (rule iso)
  have ignored: "month_clause newDate (Some tok) = month_clause newDate None"
    if "period_of newDate tok = None" for tok
    using that by (simp add: month_clause_def)
  show "getAllTickets newDate db (q\<lparr>f_month := Some tok\<rparr>)
             = getAllTickets newDate db (q\<lparr>f_month := None\<rparr>)"
    if "period_of newDate tok = None" for tok
    using ignored [OF that] by (simp add: getAllTickets_def)
  have "period_of newDate ''garbage'' = None"
    by (simp add: period_of_def parse_month_garbage)
  then show "getAllTickets newDate db (q\<lparr>f_month := Some ''garbage''\<rparr>)
           = getAllTickets newDate db (q\<lparr>f_month := None\<rparr>)"
    using ignored by (simp add: getAllTickets_def)
  show "\<exists>rows. getAllTickets newDate db q = Inr rows"
    by (simp add: getAllTickets_rows)
qed

theorem getAllTickets_period_tokens_witness:
  "getAllTickets ex_newDate ex_db
      \<lparr>f_month = Some ''2025-11'', f_customer = None, f_driver = None, f_status = None,
       f_search = None\<rparr>
     = getAllTickets ex_newDate ex_db
      \<lparr>f_month = Some ''November 2025'', f_customer = None, f_driver = None, f_status = None,
       f_search = None\<rparr>
   \<and> getAllTickets ex_newDate ex_db
      \<lparr>f_month = Some ''garbage'', f_customer = None, f_driver = None, f_status = None,
       f_search = None\<rparr>
     = getAllTickets ex_newDate ex_db
      \<lparr>f_month = None, f_customer = None, f_driver = None, f_status = None, f_search = None\<rparr>
   \<and> month_clause ex_newDate (Some ''November 2025'')
     = [(MonthYear 11 2025, [Some (PNum 11), Some (PNum 2025)])]"
proof -
  have parser: "ex_newDate ''November 1, 2025'' = Some 10"
    by (simp add: ex_newDate_def)
  have name: "month_clause ex_newDate (Some ''November 2025'')
     = [(MonthYear 11 2025, [Some (PNum 11), Some (PNum 2025)])]"
    by (simp add: month_clause_def period_of_def parse_month_name trim_tokens parser)
  show ?thesis
    using getAllTickets_period_tokens [of ex_newDate ex_db
      "\<lparr>f_month = None, f_customer = None, f_driver = None, f_status = None, f_search = None\<rparr>"]
      parser name
    by simp
qed

text \<open>The example table under all five criteria at once.\<close>

lemma getAllTickets_example_rows:
  "map_sum id (map (\<lambda>r. t_id (r_ticket r))) (getAllTickets ex_newDate ex_db
      \<lparr>f_month = Some ''November 2025'', f_customer = Some ''All'', f_driver = Some ''Dana'',
       f_status = Some ''Approved'', f_search = Some ''-1''\<rparr>) = Inr [2]"
  by code_simp

section \<open>Ticket creation: the rates\<close>

text \<open>
  The bill rate of a new ticket: the customers that the list names, as the collation
  compares names; no rate when there is none, otherwise the double sum of their rates
  from the left, divided in doubles by their count.
\<close>

lemma resolve_bill_rate_mean:
  "resolve_bill_rate db names =
     (let matched = filter (\<lambda>c. list_ex (str_eq (eng db) (c_name c)) names) (customers db)
      in if matched = [] then Num 0
         else fdiv (foldl fadd (Num 0) (map (\<lambda>c. to_double (c_default_bill_rate c)) matched))
                (Num (of_nat (length matched))))"
  by (simp add: resolve_bill_rate_def customersData_of_def Let_def foldl_map)

text \<open>
  C4, as the handler has it. Let the driver be found, the body be complete and the
  customer string yield a non-empty list of names (split at commas, trimmed, empty
  segments dropped). The bill rate is the number 0 when the collation finds no stored
  customer equal to a name of the list, and otherwise the mean in doubles of the default
  bill rates of those customers; the pay rate is the driver's default pay rate, and the
  number 0 when that is unset; the totals are the double products of the parsed quantity
  and these rates. When the columns take the date, the quantity, the rates and the
  totals, one ticket is inserted that holds what the \<^verbatim>\<open>DECIMAL(10, 2)\<close> columns make of
  these values; when a column refuses its value the answer is the failure of the
  \<^verbatim>\<open>catch\<close> block and the tables are the ones before the request. In the example the
  customers A (100) and B (200) give the rate 150, not 300.
\<close>

theorem createTicket_stores_column_rates:
  assumes "filter (\<lambda>d. d_id d = driverId_of user \<or> d_user_id d = u_id user) (drivers db)
             = driver # rest"
    and "b_date body = Some date" and "b_truck_number body = Some truck"
    and "b_customer body = Some customer" and "b_equipment_type body = Some equipment"
    and "b_ticket_number body = Some number" and "b_quantity body = Some quantity"
    and "date \<noteq> []" and "truck \<noteq> []" and "customer \<noteq> []"
    and "equipment \<noteq> []" and "number \<noteq> []" and "quantity \<noteq> []"
    and "customerNames_of customer \<noteq> []"
    and "matched = filter (\<lambda>c. list_ex (str_eq (eng db) (c_name c)) (customerNames_of customer))
                     (customers db)"
    and "billRate = (if matched = [] then Num 0
                     else fdiv (foldl fadd (Num 0)
                                  (map (\<lambda>c. to_double (c_default_bill_rate c)) matched))
                            (Num (of_nat (length matched))))"
    and "payRate = (case d_default_pay_rate driver of None \<Rightarrow> Num 0 | Some r \<Rightarrow> to_double r)"
  shows "(\<forall>day qty bill pay tb tp.
            sql_date date = Some day
          \<and> decimal_of_string (eng db) quantity = Some qty
          \<and> decimal_of_number (eng db) billRate = Some bill
          \<and> (case d_default_pay_rate driver of
                None \<Rightarrow> decimal_of_number (eng db) (Num 0) | Some r \<Rightarrow> Some r) = Some pay
          \<and> decimal_of_number (eng db) (fmul (parseFloat quantity) billRate) = Some tb
          \<and> decimal_of_number (eng db) (fmul (parseFloat quantity) payRate) = Some tp
          \<longrightarrow> (\<exists>t. createTicket now db user body
                     = (Inr \<lparr>cr_id = t_id t, cr_ticket_number = number, cr_status = ''Pending''\<rparr>,
                        db\<lparr>tickets := tickets db @ [t]\<rparr>)
                  \<and> t_quantity t = qty \<and> t_bill_rate t = bill \<and> t_pay_rate t = pay
                  \<and> t_total_bill t = tb \<and> t_total_pay t = tp \<and> t_status t = Pending))
       \<and> (sql_date date = None
          \<or> decimal_of_string (eng db) quantity = None
          \<or> decimal_of_number (eng db) billRate = None
          \<or> (d_default_pay_rate driver = None \<and> decimal_of_number (eng db) (Num 0) = None)
          \<or> decimal_of_number (eng db) (fmul (parseFloat quantity) billRate) = None
          \<or> decimal_of_number (eng db) (fmul (parseFloat quantity) payRate) = None
          \<longrightarrow> createTicket now db user body = (Inl (StorageError ''Failed to create ticket''), db))"
proof (intro conjI allI impI)
  have rate: "resolve_bill_rate db (customerNames_of customer) = billRate"
    unfolding assms(16) assms(15) by (simp add: resolve_bill_rate_mean Let_def)
  have pay: "payRate_number driver = payRate"
    using assms(17) by (simp add: payRate_number_def)
  have handler: "createTicket now db user body =
     (case inserted_row now db driver date truck (join_with '', '' (customerNames_of customer))
             equipment number quantity (photoPath_of (b_file body)) billRate
             (fmul (parseFloat quantity) billRate) (fmul (parseFloat quantity) payRate) of
        None \<Rightarrow> (Inl (StorageError ''Failed to create ticket''), db)
      | Some row \<Rightarrow>
          (Inr \<lparr>cr_id = t_id row, cr_ticket_number = number, cr_status = ''Pending''\<rparr>,
           db\<lparr>tickets := tickets db @ [row]\<rparr>))"
    using assms(1-14) by (simp add: createTicket_def Let_def rate pay)
  {
    fix day qty bill pay tb tp
    assume stored: "sql_date date = Some day
          \<and> decimal_of_string (eng db) quantity = Some qty
          \<and> decimal_of_number (eng db) billRate = Some bill
          \<and> (case d_default_pay_rate driver of
                None \<Rightarrow> decimal_of_number (eng db) (Num 0) | Some r \<Rightarrow> Some r) = Some pay
          \<and> decimal_of_number (eng db) (fmul (parseFloat quantity) billRate) = Some tb
          \<and> decimal_of_number (eng db) (fmul (parseFloat quantity) payRate) = Some tp"
    define t where "t = \<lparr>t_id = insertId_of (tickets db), t_driver_id = d_id driver,
       t_date = day, t_truck_number = truck,
       t_customer = join_with '', '' (customerNames_of customer),
       t_equipment_type = equipment, t_ticket_number = number, t_quantity = qty,
       t_photo_path = photoPath_of (b_file body),
       t_bill_rate = bill, t_pay_rate = pay, t_total_bill = tb, t_total_pay = tp,
       t_status = Pending, t_created_at = now, t_updated_at = now\<rparr>"
    have "inserted_row now db driver date truck (join_with '', '' (customerNames_of customer))
             equipment number quantity (photoPath_of (b_file body)) billRate
             (fmul (parseFloat quantity) billRate) (fmul (parseFloat quantity) payRate) = Some t"
      using stored by (simp add: inserted_row_def payRate_column_def t_def)
    then have "createTicket now db user body
                     = (Inr \<lparr>cr_id = t_id t, cr_ticket_number = number, cr_status = ''Pending''\<rparr>,
                        db\<lparr>tickets := tickets db @ [t]\<rparr>)"
      by (simp add: handler)
    then show "\<exists>t. createTicket now db user body
                     = (Inr \<lparr>cr_id = t_id t, cr_ticket_number = number, cr_status = ''Pending''\<rparr>,
                        db\<lparr>tickets := tickets db @ [t]\<rparr>)
                  \<and> t_quantity t = qty \<and> t_bill_rate t = bill \<and> t_pay_rate t = pay
                  \<and> t_total_bill t = tb \<and> t_total_pay t = tp \<and> t_status t = Pending"
      by (intro exI [of _ t]) (simp add: t_def)
  }
  assume "sql_date date = None
          \<or> decimal_of_string (eng db) quantity = None
          \<or> decimal_of_number (eng db) billRate = None
          \<or> (d_default_pay_rate driver = None \<and> decimal_of_number (eng db) (Num 0) = None)
          \<or> decimal_of_number (eng db) (fmul (parseFloat quantity) billRate) = None
          \<or> decimal_of_number (eng db) (fmul (parseFloat quantity) payRate) = None"
  then have "inserted_row now db driver date truck (join_with '', '' (customerNames_of customer))
             equipment number quantity (photoPath_of (b_file body)) billRate
             (fmul (parseFloat quantity) billRate) (fmul (parseFloat quantity) payRate) = None"
    by (auto simp: inserted_row_def payRate_column_def split: option.splits)
  then show "createTicket now db user body = (Inl (StorageError ''Failed to create ticket''), db)"
    by (simp add: handler)
qed

lemma names_AB: "customerNames_of ''A, B'' = [''A'', ''B'']"
  by (simp add: customerNames_of_def trim_def is_space_def)

theorem createTicket_stores_column_rates_witness:
  "\<exists>t. createTicket 9 ex_db \<lparr>u_driverId = Some 1, u_id = 11\<rparr>
             \<lparr>b_date = Some ''2025-11-01'', b_truck_number = Some ''TRUCK-001'',
              b_customer = Some ''A, B'', b_equipment_type = Some ''Tandem'',
              b_ticket_number = Some ''T-200'', b_quantity = Some ''2'', b_file = None\<rparr>
          = (Inr \<lparr>cr_id = t_id t, cr_ticket_number = ''T-200'', cr_status = ''Pending''\<rparr>,
             ex_db\<lparr>tickets := tickets ex_db @ [t]\<rparr>)
      \<and> t_quantity t = 2 \<and> t_bill_rate t = 150 \<and> t_pay_rate t = 30
      \<and> t_total_bill t = 300 \<and> t_total_pay t = 60 \<and> t_status t = Pending"
proof -
  let ?user = "\<lparr>u_driverId = Some 1, u_id = 11\<rparr>"
  let ?body = "\<lparr>b_date = Some ''2025-11-01'', b_truck_number = Some ''TRUCK-001'',
              b_customer = Some ''A, B'', b_equipment_type = Some ''Tandem'',
              b_ticket_number = Some ''T-200'', b_quantity = Some ''2'', b_file = None\<rparr>"
  let ?driver = "\<lparr>d_id = 1, d_user_id = 11, d_user_id_code = ''D1'', d_name = ''Dana'',
          d_default_pay_rate = Some 30\<rparr>"
  have driver: "filter (\<lambda>d. d_id d = driverId_of ?user \<or> d_user_id d = u_id ?user) (drivers ex_db)
      = ?driver # []"
    by (simp add: driverId_of_def ex_db_def ex_drivers_def)
  have matched: "ex_customers
      = filter (\<lambda>c. list_ex (str_eq (eng ex_db) (c_name c)) (customerNames_of ''A, B''))
          (customers ex_db)"
    by (simp add: names_AB ex_db_def ex_customers_def ex_engine_def ex_fold_def ascii_lower_def)
  have billRate: "Num 150 = (if ex_customers = [] then Num 0
                     else fdiv (foldl fadd (Num 0)
                                  (map (\<lambda>c. to_double (c_default_bill_rate c)) ex_customers))
                            (Num (of_nat (length ex_customers))))"
    by code_simp
  have payRate: "Num 30 = (case d_default_pay_rate ?driver of None \<Rightarrow> Num 0 | Some r \<Rightarrow> to_double r)"
    by code_simp
  have stored: "sql_date ''2025-11-01'' = Some (2025, 11, 1)
          \<and> decimal_of_string (eng ex_db) ''2'' = Some 2
          \<and> decimal_of_number (eng ex_db) (Num 150) = Some 150
          \<and> (case d_default_pay_rate ?driver of
                None \<Rightarrow> decimal_of_number (eng ex_db) (Num 0) | Some r \<Rightarrow> Some r) = Some 30
          \<and> decimal_of_number (eng ex_db) (fmul (parseFloat ''2'') (Num 150)) = Some 300
          \<and> decimal_of_number (eng ex_db) (fmul (parseFloat ''2'') (Num 30)) = Some 60"
    by code_simp
  have names: "customerNames_of ''A, B'' \<noteq> []"
    by (simp add: names_AB)
  show ?thesis
    using createTicket_stores_column_rates
      [of ?user ex_db ?driver "[]" ?body "''2025-11-01''" "''TRUCK-001''" "''A, B''" "''Tandem''"
          "''T-200''" "''2''" ex_customers "Num 150" "Num 30" 9,
       OF driver _ _ _ _ _ _ _ _ _ _ _ _ names matched billRate payRate]
      stored
    by simp
qed

text \<open>
  C4, as stated, fails on the example: the customers A, B and C have the rates 100, 100
  and 101. Their mean is 301/3; the handler computes the double 100.33333333333333... and
  the ticket stores the bill rate 100.33 and the total 200.67 for the quantity 2.
\<close>

theorem createTicket_rate_not_mean:
  "resolve_bill_rate ex_rates_db (customerNames_of ''A, B, C'')
     = Num (7060330665825621 / 70368744177664)
   \<and> map_sum id cr_id (fst (createTicket 9 ex_rates_db \<lparr>u_driverId = Some 1, u_id = 11\<rparr>
             \<lparr>b_date = Some ''2025-11-01'', b_truck_number = Some ''TRUCK-001'',
              b_customer = Some ''A, B, C'', b_equipment_type = Some ''Tandem'',
              b_ticket_number = Some ''T-200'', b_quantity = Some ''2'', b_file = None\<rparr>))
       = Inr 1
   \<and> map t_bill_rate (tickets (snd (createTicket 9 ex_rates_db \<lparr>u_driverId = Some 1, u_id = 11\<rparr>
             \<lparr>b_date = Some ''2025-11-01'', b_truck_number = Some ''TRUCK-001'',
              b_customer = Some ''A, B, C'', b_equipment_type = Some ''Tandem'',
              b_ticket_number = Some ''T-200'', b_quantity = Some ''2'', b_file = None\<rparr>)))
       = [10033 / 100]
   \<and> map t_total_bill (tickets (snd (createTicket 9 ex_rates_db \<lparr>u_driverId = Some 1, u_id = 11\<rparr>
             \<lparr>b_date = Some ''2025-11-01'', b_truck_number = Some ''TRUCK-001'',
              b_customer = Some ''A, B, C'', b_equipment_type = Some ''Tandem'',
              b_ticket_number = Some ''T-200'', b_quantity = Some ''2'', b_file = None\<rparr>)))
       = [20067 / 100]
   \<and> (7060330665825621 / 70368744177664 :: rat) \<noteq> (100 + 100 + 101) / 3
   \<and> (10033 / 100 :: rat) \<noteq> (100 + 100 + 101) / 3"
  by code_simp

text \<open>
  Two more tickets on the first example table. The names \<^verbatim>\<open>a\<close> and \<^verbatim>\<open>b\<close> select the
  customers A and B under the collation, and an empty segment of the list is dropped. A
  name that no customer has gives the bill rate 0, and a driver without a rate the pay
  rate 0.
\<close>

lemma createTicket_examples:
  "map (\<lambda>t. (t_customer t, t_quantity t, t_bill_rate t, t_pay_rate t, t_total_bill t, t_total_pay t))
     (drop 3 (tickets (snd (createTicket 9 ex_db \<lparr>u_driverId = Some 1, u_id = 11\<rparr>
             \<lparr>b_date = Some ''2025-11-01'', b_truck_number = Some ''TRUCK-001'',
              b_customer = Some ''a ,, b'', b_equipment_type = Some ''Tandem'',
              b_ticket_number = Some ''T-200'', b_quantity = Some ''2'', b_file = None\<rparr>))))
     = [(''a, b'', 2, 150, 30, 300, 60)]"
  "map (\<lambda>t. (t_customer t, t_quantity t, t_bill_rate t, t_pay_rate t, t_total_bill t, t_total_pay t))
     (drop 3 (tickets (snd (createTicket 9 ex_db \<lparr>u_driverId = None, u_id = 12\<rparr>
             \<lparr>b_date = Some ''2025-11-30'', b_truck_number = Some ''TRUCK-002'',
              b_customer = Some ''Z'', b_equipment_type = Some ''Tandem'',
              b_ticket_number = Some ''T-201'', b_quantity = Some ''4.5'', b_file = None\<rparr>))))
     = [(''Z'', 9 / 2, 0, 0, 0, 0)]"
  by code_simp+

section \<open>Batch update of the bill rates: commit and rollback\<close>







section \<open>Date format of invoice and settlement requests\<close>

text \<open>
  \<^verbatim>\<open>generateSettlement\<close> refuses a date that does not match the pattern, and its answer
  then does not depend on the tables.
\<close>

lemma generateSettlement_rejects_bad_dates:
  assumes "s_driverId q = Some did" and "s_startDate q = Some sd" and "s_endDate q = Some ed"
    and "sd \<noteq> []" and "ed \<noteq> []" and "\<not> dateRegex sd \<or> \<not> dateRegex ed"
  shows "generateSettlement db q = Inl (ValidationError ''Start date must be in YYYY-MM-DD format'')
       \<or> generateSettlement db q = Inl (ValidationError ''End date must be in YYYY-MM-DD format'')"
  using assms by (auto simp: generateSettlement_def)

lemma garbage_not_date: "\<not> dateRegex ''garbage''" "\<not> dateRegex ''11/30/2025''"
  by (simp_all add: dateRegex_def is_digit_def)

text \<open>
  C8. \<^verbatim>\<open>generateInvoice\<close> has no check of the date format: with two malformed dates
  and an identifier that no customer has, the answer is \<^verbatim>\<open>Customer not found\<close>, which is
  the outcome of reading the customers table. \<^verbatim>\<open>generateSettlement\<close> answers the same
  dates with the format error.
\<close>

theorem generateInvoice_skips_date_check:
  "generateInvoice ex_db
      \<lparr>q_customerId = Some 99, q_startDate = Some ''garbage'', q_endDate = Some ''11/30/2025''\<rparr>
     = Inl (NotFoundError ''Customer not found'')
   \<and> generateSettlement ex_db
      \<lparr>s_driverId = Some 99, s_startDate = Some ''garbage'', s_endDate = Some ''11/30/2025''\<rparr>
     = Inl (ValidationError ''Start date must be in YYYY-MM-DD format'')"
  by (simp add: generateInvoice_def generateSettlement_def garbage_not_date
        ex_db_def ex_customers_def)

end
